theory Spec2Isabelle
  imports Complex_Main
begin

section \<open>Configuration (app/core/config.py)\<close>

text \<open>
  The \<open>Settings\<close> class. Only the detection settings and the sensitivity levels are
  read by the detection engine.
\<close>

record Settings =
  default_contamination :: real
  default_window_size :: int
  z_score_threshold :: real
  anomaly_grouping_window_seconds :: int
  sensitivity_low :: real
  sensitivity_medium :: real
  sensitivity_high :: real

text \<open>The module-level instance \<open>settings = Settings()\<close> with the declared defaults.\<close>

definition settings :: Settings where
  "settings = \<lparr> default_contamination = 1 / 100,
                default_window_size = 10,
                z_score_threshold = 3,
                anomaly_grouping_window_seconds = 300,
                sensitivity_low = 5 / 100,
                sensitivity_medium = 1 / 100,
                sensitivity_high = 5 / 1000 \<rparr>"

section \<open>Floating-point arithmetic\<close>

text \<open>
  A finite float is the real number it denotes. Every arithmetic operation of Python and
  numpy on floats returns the double nearest to the exact result, ties to the even
  significand (IEEE 754 binary64): \<open>fl\<close> is this rounding, with 53 significant bits and
  the subnormal range below \<open>2^-1022\<close>; a result of magnitude \<open>2^1024\<close> or more
  overflows. Signed zeros are not distinguished.
\<close>

definition round_half_even :: "real \<Rightarrow> int" where
  "round_half_even x =
     (let f = \<lfloor>x\<rfloor>; d = x - of_int f
      in if d < 1 / 2 then f else if 1 / 2 < d then f + 1 else if even f then f else f + 1)"

definition pow2 :: "int \<Rightarrow> real" where
  "pow2 e = (if 0 \<le> e then 2 ^ nat e else 1 / 2 ^ nat (- e))"

definition float_exponent :: "real \<Rightarrow> int" where
  "float_exponent x = max \<lfloor>log 2 \<bar>x\<bar>\<rfloor> (- 1022)"

definition ulp :: "real \<Rightarrow> real" where
  "ulp x = pow2 (float_exponent x - 52)"

definition fl :: "real \<Rightarrow> real" where
  "fl x = (if x = 0 then 0 else of_int (round_half_even (x / ulp x)) * ulp x)"

subsection \<open>Python numbers\<close>

datatype py_exception =
  ValueError | ImportError | AttributeError | IndexError | TypeError | OverflowError
  | ZeroDivisionError | OtherException

text \<open>
  \<open>p / q\<close> on Python ints: the quotient correctly rounded, OverflowError when it is too
  large for a float.
\<close>

definition py_int_truediv :: "int \<Rightarrow> int \<Rightarrow> py_exception + real" where
  "py_int_truediv p q =
     (if q = 0 then Inl ZeroDivisionError
      else let r = fl (real_of_int p / real_of_int q)
           in if 2 ^ 1024 \<le> \<bar>r\<bar> then Inl OverflowError else Inr r)"

text \<open>
  \<open>round(x, n)\<close> on a float: the decimal with \<open>n\<close> places nearest to the exact value of
  \<open>x\<close>, ties to even, converted back to the nearest double.
\<close>

definition py_round :: "real \<Rightarrow> nat \<Rightarrow> real" where
  "py_round x n = fl (of_int (round_half_even (x * 10 ^ n)) / 10 ^ n)"

subsection \<open>Elements of numpy arrays\<close>

text \<open>
  numpy and pandas do not raise on a division by zero or an overflow: the result is an
  infinity or NaN.
\<close>

datatype npfloat = Num real | PosInf | NegInf | NaN

definition np_round :: "real \<Rightarrow> npfloat" where
  "np_round x =
     (if 2 ^ 1024 \<le> fl x then PosInf else if fl x \<le> - (2 ^ 1024) then NegInf else Num (fl x))"

fun np_add :: "npfloat \<Rightarrow> npfloat \<Rightarrow> npfloat" where
  "np_add NaN _ = NaN"
| "np_add _ NaN = NaN"
| "np_add (Num a) (Num b) = np_round (a + b)"
| "np_add PosInf NegInf = NaN"
| "np_add NegInf PosInf = NaN"
| "np_add PosInf _ = PosInf"
| "np_add NegInf _ = NegInf"
| "np_add (Num a) PosInf = PosInf"
| "np_add (Num a) NegInf = NegInf"

fun np_sub :: "npfloat \<Rightarrow> npfloat \<Rightarrow> npfloat" where
  "np_sub NaN _ = NaN"
| "np_sub _ NaN = NaN"
| "np_sub (Num a) (Num b) = np_round (a - b)"
| "np_sub PosInf PosInf = NaN"
| "np_sub NegInf NegInf = NaN"
| "np_sub PosInf _ = PosInf"
| "np_sub NegInf _ = NegInf"
| "np_sub (Num a) PosInf = NegInf"
| "np_sub (Num a) NegInf = PosInf"

fun np_mul :: "npfloat \<Rightarrow> npfloat \<Rightarrow> npfloat" where
  "np_mul NaN _ = NaN"
| "np_mul _ NaN = NaN"
| "np_mul (Num a) (Num b) = np_round (a * b)"
| "np_mul (Num a) PosInf = (if 0 < a then PosInf else if a < 0 then NegInf else NaN)"
| "np_mul (Num a) NegInf = (if 0 < a then NegInf else if a < 0 then PosInf else NaN)"
| "np_mul PosInf (Num b) = (if 0 < b then PosInf else if b < 0 then NegInf else NaN)"
| "np_mul NegInf (Num b) = (if 0 < b then NegInf else if b < 0 then PosInf else NaN)"
| "np_mul PosInf PosInf = PosInf"
| "np_mul NegInf NegInf = PosInf"
| "np_mul PosInf NegInf = NegInf"
| "np_mul NegInf PosInf = NegInf"

fun np_div :: "npfloat \<Rightarrow> npfloat \<Rightarrow> npfloat" where
  "np_div NaN _ = NaN"
| "np_div _ NaN = NaN"
| "np_div (Num a) (Num b) =
     (if b \<noteq> 0 then np_round (a / b)
      else if 0 < a then PosInf else if a < 0 then NegInf else NaN)"
| "np_div (Num a) _ = Num 0"
| "np_div PosInf (Num b) = (if 0 \<le> b then PosInf else NegInf)"
| "np_div NegInf (Num b) = (if 0 \<le> b then NegInf else PosInf)"
| "np_div _ _ = NaN"

fun np_abs :: "npfloat \<Rightarrow> npfloat" where
  "np_abs (Num a) = Num \<bar>a\<bar>"
| "np_abs PosInf = PosInf"
| "np_abs NegInf = PosInf"
| "np_abs NaN = NaN"

fun np_neg :: "npfloat \<Rightarrow> npfloat" where
  "np_neg (Num a) = Num (- a)"
| "np_neg PosInf = NegInf"
| "np_neg NegInf = PosInf"
| "np_neg NaN = NaN"

fun np_sqrt :: "npfloat \<Rightarrow> npfloat" where
  "np_sqrt (Num a) = (if a < 0 then NaN else Num (fl (sqrt a)))"
| "np_sqrt PosInf = PosInf"
| "np_sqrt NegInf = NaN"
| "np_sqrt NaN = NaN"

text \<open>\<open>x > t\<close> on array elements: every comparison with NaN is false.\<close>

fun np_gt :: "npfloat \<Rightarrow> real \<Rightarrow> bool" where
  "np_gt (Num a) t = (a > t)"
| "np_gt PosInf t = True"
| "np_gt NegInf t = False"
| "np_gt NaN t = False"

text \<open>\<open>np.clip(x, lo, hi)\<close> is \<open>minimum(maximum(x, lo), hi)\<close>; NaN passes through.\<close>

fun np_clip :: "npfloat \<Rightarrow> real \<Rightarrow> real \<Rightarrow> npfloat" where
  "np_clip (Num a) lo hi = Num (min (max a lo) hi)"
| "np_clip PosInf lo hi = Num hi"
| "np_clip NegInf lo hi = Num (min lo hi)"
| "np_clip NaN lo hi = NaN"

text \<open>
  \<open>x * 2\<close> on a float: doubling is exact, short of an overflow.
\<close>

definition np_double :: "real \<Rightarrow> npfloat" where
  "np_double x =
     (if 2 ^ 1024 \<le> x * 2 then PosInf else if x * 2 \<le> - (2 ^ 1024) then NegInf
      else Num (x * 2))"

definition np_zeros_bool :: "nat \<Rightarrow> bool list" where
  "np_zeros_bool n = replicate n False"

definition np_zeros :: "nat \<Rightarrow> npfloat list" where
  "np_zeros n = replicate n (Num 0)"

subsection \<open>Sums of arrays\<close>

text \<open>
  \<open>np.add.reduce\<close> on a contiguous float array adds in the order of numpy's pairwise
  summation: fewer than 8 elements from left to right; up to 128 elements with 8
  interleaved partial sums that are combined as a tree, the rest added one by one; a
  longer array is split in two parts, the first a multiple of 8.
\<close>

fun accumulate8 :: "npfloat list \<Rightarrow> npfloat list \<Rightarrow> npfloat list \<times> npfloat list" where
  "accumulate8 r xs =
     (if 8 \<le> length xs
      then accumulate8 (map (\<lambda>(a, b). np_add a b) (zip r (take 8 xs))) (drop 8 xs)
      else (r, xs))"

declare accumulate8.simps [simp del]

definition combine8 :: "npfloat list \<Rightarrow> npfloat" where
  "combine8 r =
     np_add (np_add (np_add (r ! 0) (r ! 1)) (np_add (r ! 2) (r ! 3)))
            (np_add (np_add (r ! 4) (r ! 5)) (np_add (r ! 6) (r ! 7)))"

function pairwise_sum :: "npfloat list \<Rightarrow> npfloat" where
  "pairwise_sum xs =
     (if length xs < 8 then foldl np_add (Num 0) xs
      else if length xs \<le> 128 then
        (let (r, rest) = accumulate8 (take 8 xs) (drop 8 xs)
         in foldl np_add (combine8 r) rest)
      else
        (let n2 = length xs div 2; n2 = n2 - n2 mod 8
         in np_add (pairwise_sum (take n2 xs)) (pairwise_sum (drop n2 xs))))"
  by pat_completeness auto
termination
  by (relation "measure length") (auto simp: Let_def)

declare pairwise_sum.simps [simp del]

definition np_sum :: "npfloat list \<Rightarrow> npfloat" where
  "np_sum xs = np_add (Num 0) (pairwise_sum xs)"

text \<open>
  \<open>np.mean\<close>: the sum divided by the number of elements; NaN for an empty array (a
  warning, not an exception).
\<close>

definition np_mean :: "real list \<Rightarrow> npfloat" where
  "np_mean X = np_div (np_sum (map Num X)) (np_round (real (length X)))"

text \<open>
  \<open>np.std\<close> (\<open>ddof = 0\<close>): the square root of the mean of the squared deviations from
  the mean.
\<close>

definition np_std :: "real list \<Rightarrow> npfloat" where
  "np_std X =
     (let n = np_round (real (length X));
          arrmean = np_div (np_sum (map Num X)) n;
          x = map (\<lambda>v. np_sub (Num v) arrmean) X;
          x = map (\<lambda>v. np_mul v v) x;
          ret = np_div (np_sum x) n
      in np_sqrt ret)"

type_synonym scorer_result = "py_exception + (bool list \<times> npfloat list)"

section \<open>Baseline detectors (app/detection/baseline.py)\<close>

subsection \<open>ZScoreDetector\<close>

text \<open>The attributes \<open>mean_\<close> and \<open>std_\<close> are the fields \<open>fitted_mean\<close> and \<open>fitted_std\<close>.\<close>

record ZScoreDetector =
  threshold :: real
  fitted_mean :: "npfloat option"
  fitted_std :: "npfloat option"

definition ZScoreDetector_init :: "real \<Rightarrow> ZScoreDetector" where
  "ZScoreDetector_init t = \<lparr> threshold = t, fitted_mean = None, fitted_std = None \<rparr>"

definition ZScoreDetector_fit :: "ZScoreDetector \<Rightarrow> real list \<Rightarrow> ZScoreDetector" where
  "ZScoreDetector_fit self X = self \<lparr> fitted_mean := Some (np_mean X), fitted_std := Some (np_std X) \<rparr>"

definition ZScoreDetector_predict :: "ZScoreDetector \<Rightarrow> real list \<Rightarrow> scorer_result" where
  "ZScoreDetector_predict self X =
     (case (fitted_mean self, fitted_std self) of
        (Some m, Some s) \<Rightarrow>
          if s = Num 0 then Inr (np_zeros_bool (length X), np_zeros (length X))
          else
            let z_scores = map (\<lambda>x. np_abs (np_div (np_sub (Num x) m) s)) X;
                anomalies = map (\<lambda>z. np_gt z (threshold self)) z_scores;
                scores = map (\<lambda>z. np_clip (np_div z (np_double (threshold self))) 0 1) z_scores
            in Inr (anomalies, scores)
      | _ \<Rightarrow> Inl ValueError)"

definition ZScoreDetector_fit_predict :: "ZScoreDetector \<Rightarrow> real list \<Rightarrow> scorer_result" where
  "ZScoreDetector_fit_predict self X = ZScoreDetector_predict (ZScoreDetector_fit self X) X"

subsection \<open>MovingAverageDetector\<close>

record MovingAverageDetector =
  window_size :: int
  ma_threshold :: real

definition MovingAverageDetector_init :: "int \<Rightarrow> real \<Rightarrow> MovingAverageDetector" where
  "MovingAverageDetector_init w t = \<lparr> window_size = w, ma_threshold = t \<rparr>"

text \<open>
  pandas \<open>Series.rolling(window=w, center=False)\<close>: the window of position \<open>i\<close> is the
  \<open>w\<close> values ending at \<open>i\<close>; with fewer than \<open>w\<close> values seen (\<open>min_periods = w\<close>)
  every statistic is NaN. \<open>mean()\<close> of no value is NaN; \<open>std()\<close> is the sample
  standard deviation (\<open>ddof = 1\<close>), NaN for fewer than two values. pandas updates both
  statistics incrementally in floating point; the model gives the statistic of each
  window in exact arithmetic, and no property below depends on its value.
\<close>

definition rolling_window :: "nat \<Rightarrow> real list \<Rightarrow> nat \<Rightarrow> real list option" where
  "rolling_window w X i = (if i + 1 < w then None else Some (take w (drop (i + 1 - w) X)))"

definition sample_mean :: "real list \<Rightarrow> npfloat" where
  "sample_mean ws = (if ws = [] then NaN else Num (sum_list ws / real (length ws)))"

definition sample_std :: "real list \<Rightarrow> npfloat" where
  "sample_std ws =
     (if length ws < 2 then NaN
      else let m = sum_list ws / real (length ws)
           in Num (sqrt (sum_list (map (\<lambda>x. (x - m) ^ 2) ws) / real (length ws - 1))))"

definition rolling_mean :: "nat \<Rightarrow> real list \<Rightarrow> npfloat list" where
  "rolling_mean w X =
     map (\<lambda>i. case rolling_window w X i of None \<Rightarrow> NaN | Some ws \<Rightarrow> sample_mean ws)
         [0..<length X]"

definition rolling_std :: "nat \<Rightarrow> real list \<Rightarrow> npfloat list" where
  "rolling_std w X =
     map (\<lambda>i. case rolling_window w X i of None \<Rightarrow> NaN | Some ws \<Rightarrow> sample_std ws)
         [0..<length X]"

text \<open>\<open>Series.replace(0, 1e-6)\<close>: NaN entries stay NaN.\<close>

definition replace_zero :: "npfloat list \<Rightarrow> npfloat list" where
  "replace_zero ss = map (\<lambda>s. if s = Num 0 then Num (fl (1 / 10 ^ 6)) else s) ss"

text \<open>The slice assignment \<open>z[:w] = 0\<close> for \<open>w \<ge> 0\<close>.\<close>

definition assign_prefix_zero :: "nat \<Rightarrow> npfloat list \<Rightarrow> npfloat list" where
  "assign_prefix_zero w zs = replicate (min w (length zs)) (Num 0) @ drop w zs"

text \<open>
  \<open>rolling\<close> rejects a negative window with a ValueError; the length check before it
  never holds for a negative window.
\<close>

definition MovingAverageDetector_predict :: "MovingAverageDetector \<Rightarrow> real list \<Rightarrow> scorer_result" where
  "MovingAverageDetector_predict self X =
     (if int (length X) < window_size self
      then Inr (np_zeros_bool (length X), np_zeros (length X))
      else if window_size self < 0 then Inl ValueError
      else
        let w = nat (window_size self);
            rolling_mean = rolling_mean w X;
            rolling_std = replace_zero (rolling_std w X);
            z_scores = map (\<lambda>(x, m, s). np_abs (np_div (np_sub (Num x) m) s))
                           (zip X (zip rolling_mean rolling_std));
            z_scores = assign_prefix_zero w z_scores;
            anomalies = map (\<lambda>z. np_gt z (ma_threshold self)) z_scores;
            scores = map (\<lambda>z. np_clip (np_div z (np_double (ma_threshold self))) 0 1)
                         z_scores
        in Inr (anomalies, scores))"

definition MovingAverageDetector_fit_predict :: "MovingAverageDetector \<Rightarrow> real list \<Rightarrow> scorer_result" where
  "MovingAverageDetector_fit_predict self X = MovingAverageDetector_predict self X"

section \<open>Detectors on external models (app/detection/ml\_detectors.py, advanced.py)\<close>

subsection \<open>The libraries\<close>

text \<open>
  scikit-learn, dtaianomaly and the transcendental functions of numpy are not part of
  the repository. A fitted isolation forest is the pair of its methods; a dtaianomaly
  detector is its \<open>fit\<close>, which returns the \<open>decision_function\<close> of the fitted
  detector. A matrix is the list of its rows.
\<close>

type_synonym matrix = "npfloat list list"

record fitted_forest =
  forest_predict :: "matrix \<Rightarrow> py_exception + int list"
  forest_score_samples :: "matrix \<Rightarrow> py_exception + npfloat list"

record dtai_detector =
  detector_fit :: "matrix \<Rightarrow> py_exception + (matrix \<Rightarrow> py_exception + npfloat list)"

record external =
  IsolationForest_fit :: "real \<Rightarrow> matrix \<Rightarrow> py_exception + fitted_forest"
  LocalOutlierFactor_fit_predict ::
    "int \<Rightarrow> real \<Rightarrow> matrix \<Rightarrow> py_exception + (int list \<times> npfloat list)"
  np_exp :: "npfloat \<Rightarrow> npfloat"
  np_percentile :: "npfloat list \<Rightarrow> npfloat \<Rightarrow> py_exception + npfloat"
  DTAI_AVAILABLE :: bool
  MatrixProfile_new :: "py_exception + dtai_detector"
  IForest_new :: "py_exception + dtai_detector"

subsection \<open>Minimum and maximum of an array\<close>

fun np_less :: "npfloat \<Rightarrow> npfloat \<Rightarrow> bool" where
  "np_less NaN _ = False"
| "np_less _ NaN = False"
| "np_less (Num a) (Num b) = (a < b)"
| "np_less NegInf NegInf = False"
| "np_less NegInf _ = True"
| "np_less PosInf _ = False"
| "np_less (Num a) PosInf = True"
| "np_less (Num a) NegInf = False"

definition np_minimum :: "npfloat \<Rightarrow> npfloat \<Rightarrow> npfloat" where
  "np_minimum a b = (if a = NaN \<or> b = NaN then NaN else if np_less b a then b else a)"

definition np_maximum :: "npfloat \<Rightarrow> npfloat \<Rightarrow> npfloat" where
  "np_maximum a b = (if a = NaN \<or> b = NaN then NaN else if np_less a b then b else a)"

text \<open>\<open>a.min()\<close> and \<open>a.max()\<close> raise ValueError on an empty array.\<close>

definition np_amin :: "npfloat list \<Rightarrow> py_exception + npfloat" where
  "np_amin xs = (case xs of [] \<Rightarrow> Inl ValueError | x # rest \<Rightarrow> Inr (foldl np_minimum x rest))"

definition np_amax :: "npfloat list \<Rightarrow> py_exception + npfloat" where
  "np_amax xs = (case xs of [] \<Rightarrow> Inl ValueError | x # rest \<Rightarrow> Inr (foldl np_maximum x rest))"

text \<open>The normalisation \<open>(s - s.min()) / (s.max() - s.min() + 1e-6)\<close> of both detectors.\<close>

definition min_max_normalize :: "npfloat list \<Rightarrow> py_exception + npfloat list" where
  "min_max_normalize ss =
     (case np_amin ss of
        Inl e \<Rightarrow> Inl e
      | Inr lo \<Rightarrow>
          (case np_amax ss of
             Inl e \<Rightarrow> Inl e
           | Inr hi \<Rightarrow>
               Inr (map (\<lambda>s. np_div (np_sub s lo)
                                     (np_add (np_sub hi lo) (Num (fl (1 / 10 ^ 6))))) ss)))"

subsection \<open>The feature matrix\<close>

text \<open>
  \<open>_prepare_features\<close> of both detectors: the value, the difference to the previous
  value (0 for the first) and the difference divided by the previous value where that is
  not 0. \<open>X[0]\<close> raises IndexError on an empty array.
\<close>

definition prepare_features :: "real list \<Rightarrow> py_exception + matrix" where
  "prepare_features X =
     (if X = [] then Inl IndexError
      else
        let diff = map (\<lambda>(x, prev). np_sub (Num x) (Num prev)) (zip X (hd X # X));
            rate = map (\<lambda>(d, prev). if prev \<noteq> 0 then np_div d (Num prev) else Num 0)
                       (zip (tl diff) (butlast X));
            rate = Num 0 # rate
        in Inr (map (\<lambda>(x, d, r). [Num x, d, r]) (zip X (zip diff rate))))"

subsection \<open>IsolationForestDetector\<close>

text \<open>
  The attribute \<open>model\<close> holds the estimator; an estimator that was not fitted has no
  fitted methods (\<open>None\<close>) and raises when asked to predict. \<open>fitted_\<close> is the
  field \<open>forest_fitted\<close>.
\<close>

record IsolationForestDetector =
  forest_contamination :: real
  forest_model :: "fitted_forest option"
  forest_fitted :: bool

definition IsolationForestDetector_init :: "real \<Rightarrow> IsolationForestDetector" where
  "IsolationForestDetector_init c =
     \<lparr> forest_contamination = c, forest_model = None, forest_fitted = False \<rparr>"

definition IsolationForestDetector_fit ::
  "external \<Rightarrow> IsolationForestDetector \<Rightarrow> real list \<Rightarrow> py_exception + IsolationForestDetector" where
  "IsolationForestDetector_fit ext self X =
     (case prepare_features X of
        Inl e \<Rightarrow> Inl e
      | Inr X_features \<Rightarrow>
          (case IsolationForest_fit ext (forest_contamination self) X_features of
             Inl e \<Rightarrow> Inl e
           | Inr m \<Rightarrow> Inr (self \<lparr> forest_model := Some m, forest_fitted := True \<rparr>)))"

definition IsolationForestDetector_predict ::
  "external \<Rightarrow> IsolationForestDetector \<Rightarrow> real list \<Rightarrow> scorer_result" where
  "IsolationForestDetector_predict ext self X =
     (if \<not> forest_fitted self then Inl ValueError
      else
        case prepare_features X of
          Inl e \<Rightarrow> Inl e
        | Inr X_features \<Rightarrow>
            (case forest_model self of
               None \<Rightarrow> Inl OtherException
             | Some m \<Rightarrow>
                 (case forest_predict m X_features of
                    Inl e \<Rightarrow> Inl e
                  | Inr predictions \<Rightarrow>
                      let anomalies = map (\<lambda>p. p = - 1) predictions
                      in (case forest_score_samples m X_features of
                            Inl e \<Rightarrow> Inl e
                          | Inr scores_raw \<Rightarrow>
                              Inr (anomalies,
                                   map (\<lambda>s. np_div (Num 1) (np_add (Num 1) (np_exp ext s)))
                                       scores_raw)))))"

definition IsolationForestDetector_fit_predict ::
  "external \<Rightarrow> IsolationForestDetector \<Rightarrow> real list \<Rightarrow> scorer_result" where
  "IsolationForestDetector_fit_predict ext self X =
     (case IsolationForestDetector_fit ext self X of
        Inl e \<Rightarrow> Inl e
      | Inr self' \<Rightarrow> IsolationForestDetector_predict ext self' X)"

subsection \<open>LOFDetector\<close>

record LOFDetector =
  lof_contamination :: real
  n_neighbors :: int

definition LOFDetector_init :: "real \<Rightarrow> int \<Rightarrow> LOFDetector" where
  "LOFDetector_init c k = \<lparr> lof_contamination = c, n_neighbors = min k 20 \<rparr>"

definition LOFDetector_fit_predict :: "external \<Rightarrow> LOFDetector \<Rightarrow> real list \<Rightarrow> scorer_result" where
  "LOFDetector_fit_predict ext self X =
     (case prepare_features X of
        Inl e \<Rightarrow> Inl e
      | Inr X_features \<Rightarrow>
          let k = min (n_neighbors self) (int (length X) - 1)
          in if k < 2 then Inr (np_zeros_bool (length X), np_zeros (length X))
             else
               (case LocalOutlierFactor_fit_predict ext k (lof_contamination self) X_features of
                  Inl e \<Rightarrow> Inl e
                | Inr (predictions, negative_outlier_factor) \<Rightarrow>
                    let anomalies = map (\<lambda>p. p = - 1) predictions;
                        scores_raw = map np_neg negative_outlier_factor
                    in (case min_max_normalize scores_raw of
                          Inl e \<Rightarrow> Inl e
                        | Inr scores \<Rightarrow> Inr (anomalies, scores))))"

subsection \<open>DTAIDetector\<close>

record DTAIDetector =
  dtai_method :: string
  dtai_contamination :: real
  detector :: dtai_detector

definition DTAIDetector_init :: "external \<Rightarrow> string \<Rightarrow> real \<Rightarrow> py_exception + DTAIDetector" where
  "DTAIDetector_init ext meth c =
     (if \<not> DTAI_AVAILABLE ext then Inl ImportError
      else
        case (if meth = ''matrix-profile'' then MatrixProfile_new ext
              else if meth = ''iforest'' then IForest_new ext
              else MatrixProfile_new ext) of
          Inl e \<Rightarrow> Inl e
        | Inr d \<Rightarrow> Inr \<lparr> dtai_method = meth, dtai_contamination = c, detector = d \<rparr>)"

text \<open>The body of the \<open>try\<close> block of \<open>fit_predict\<close>.\<close>

definition DTAIDetector_try :: "external \<Rightarrow> DTAIDetector \<Rightarrow> real list \<Rightarrow> scorer_result" where
  "DTAIDetector_try ext self X =
     (let X_reshaped = map (\<lambda>x. [Num x]) X
      in case detector_fit (detector self) X_reshaped of
           Inl e \<Rightarrow> Inl e
         | Inr decision_function \<Rightarrow>
             (case decision_function X_reshaped of
                Inl e \<Rightarrow> Inl e
              | Inr scs \<Rightarrow>
                  (case min_max_normalize scs of
                     Inl e \<Rightarrow> Inl e
                   | Inr scores_normalized \<Rightarrow>
                       (case np_percentile ext scores_normalized
                               (np_mul (np_sub (Num 1) (Num (dtai_contamination self))) (Num 100)) of
                          Inl e \<Rightarrow> Inl e
                        | Inr thr \<Rightarrow>
                            Inr (map (\<lambda>s. np_less thr s) scores_normalized,
                                 scores_normalized)))))"

definition DTAIDetector_fit_predict :: "external \<Rightarrow> DTAIDetector \<Rightarrow> real list \<Rightarrow> scorer_result" where
  "DTAIDetector_fit_predict ext self X =
     (case DTAIDetector_try ext self X of
        Inr r \<Rightarrow> Inr r
      | Inl e \<Rightarrow> Inr (np_zeros_bool (length X), np_zeros (length X)))"

subsection \<open>ProphetDetector\<close>

text \<open>
  \<open>ProphetDetector\<close> defines \<open>fit\<close> and \<open>predict\<close> but no \<open>fit_predict\<close>: its
  constructor swallows the ImportError of a missing prophet package, and the attribute
  lookup \<open>detector.fit_predict\<close> raises AttributeError.
\<close>

definition ProphetDetector_fit_predict :: "real list \<Rightarrow> scorer_result" where
  "ProphetDetector_fit_predict X = Inl AttributeError"

section \<open>The detection engine (app/detection/engine.py)\<close>

subsection \<open>Sensitivity\<close>

definition sensitivity_map :: "Settings \<Rightarrow> string \<rightharpoonup> real" where
  "sensitivity_map cfg =
     [''low'' \<mapsto> sensitivity_low cfg,
      ''medium'' \<mapsto> sensitivity_medium cfg,
      ''high'' \<mapsto> sensitivity_high cfg]"

definition get_contamination_by_sensitivity :: "Settings \<Rightarrow> string \<Rightarrow> real" where
  "get_contamination_by_sensitivity cfg sensitivity =
     (case sensitivity_map cfg sensitivity of
        Some c \<Rightarrow> c
      | None \<Rightarrow> default_contamination cfg)"

subsection \<open>The method table\<close>

definition detect_zscore :: "Settings \<Rightarrow> real list \<Rightarrow> real \<Rightarrow> scorer_result" where
  "detect_zscore cfg X contamination =
     ZScoreDetector_fit_predict (ZScoreDetector_init (z_score_threshold cfg)) X"

definition detect_moving_average :: "Settings \<Rightarrow> real list \<Rightarrow> real \<Rightarrow> scorer_result" where
  "detect_moving_average cfg X contamination =
     MovingAverageDetector_fit_predict
       (MovingAverageDetector_init (default_window_size cfg) (z_score_threshold cfg)) X"

definition detect_isolation_forest :: "external \<Rightarrow> real list \<Rightarrow> real \<Rightarrow> scorer_result" where
  "detect_isolation_forest ext X contamination =
     IsolationForestDetector_fit_predict ext (IsolationForestDetector_init contamination) X"

definition detect_lof :: "external \<Rightarrow> real list \<Rightarrow> real \<Rightarrow> scorer_result" where
  "detect_lof ext X contamination =
     LOFDetector_fit_predict ext (LOFDetector_init contamination 20) X"

definition detect_prophet :: "external \<Rightarrow> real list \<Rightarrow> real \<Rightarrow> scorer_result" where
  "detect_prophet ext X contamination =
     (case ProphetDetector_fit_predict X of
        Inl ImportError \<Rightarrow> detect_isolation_forest ext X contamination
      | r \<Rightarrow> r)"

definition detect_dtai_auto :: "external \<Rightarrow> real list \<Rightarrow> real \<Rightarrow> scorer_result" where
  "detect_dtai_auto ext X contamination =
     (if \<not> DTAI_AVAILABLE ext then detect_isolation_forest ext X contamination
      else
        case DTAIDetector_init ext ''matrix-profile'' contamination of
          Inl e \<Rightarrow> Inl e
        | Inr d \<Rightarrow> DTAIDetector_fit_predict ext d X)"

definition methods :: "Settings \<Rightarrow> external \<Rightarrow> string \<rightharpoonup> (real list \<Rightarrow> real \<Rightarrow> scorer_result)" where
  "methods cfg ext =
     [''z-score'' \<mapsto> detect_zscore cfg,
      ''moving-average'' \<mapsto> detect_moving_average cfg,
      ''isolation-forest'' \<mapsto> detect_isolation_forest ext,
      ''lof'' \<mapsto> detect_lof ext,
      ''prophet'' \<mapsto> detect_prophet ext,
      ''dtai-auto'' \<mapsto> detect_dtai_auto ext]"

text \<open>The replacement of a method name that is not a key of the table.\<close>

definition resolve_method :: "Settings \<Rightarrow> external \<Rightarrow> string \<Rightarrow> string" where
  "resolve_method cfg ext meth =
     (if meth \<notin> dom (methods cfg ext) then ''isolation-forest'' else meth)"

subsection \<open>detect\<close>

text \<open>
  A \<open>datetime\<close> is its number of seconds since a fixed instant, a multiple of a
  microsecond.
\<close>

type_synonym datetime = real

text \<open>
  The dictionary that \<open>detect\<close> returns; its key \<open>method\<close> is the field
  \<open>method_used\<close> and its key \<open>values\<close> the field \<open>values_of\<close>.
\<close>

record detection_result =
  method_used :: string
  anomalies :: "bool list"
  scores :: "npfloat list"
  timestamps :: "datetime list"
  values_of :: "real list"
  anomaly_count :: int
  detection_time_ms :: real

definition empty_result :: "nat \<Rightarrow> detection_result" where
  "empty_result n =
     \<lparr> method_used = ''none'',
       anomalies = replicate n False,
       scores = replicate n (Num 0),
       timestamps = [],
       values_of = [],
       anomaly_count = 0,
       detection_time_ms = 0 \<rparr>"

text \<open>\<open>anomalies.sum()\<close> on a boolean array adds the flags as 0 and 1.\<close>

definition np_sum_bool :: "bool list \<Rightarrow> int" where
  "np_sum_bool bs = sum_list (map (\<lambda>b. if b then 1 else 0) bs)"

text \<open>
  The two readings of \<open>time.time()\<close> are the parameter \<open>clock\<close>. Log output is not
  modelled. Every exception of the scorer is caught (\<open>except Exception\<close>), so
  \<open>detect\<close> itself has no error result.
\<close>

definition detect ::
  "Settings \<Rightarrow> external \<Rightarrow> real \<times> real \<Rightarrow> datetime list \<Rightarrow> real list \<Rightarrow> string \<Rightarrow> string
     \<Rightarrow> detection_result" where
  "detect cfg ext clock ts vals meth sensitivity =
     (let t_start = fst clock;
          X = vals
      in if length X = 0 then empty_result 0
         else
           let meth = resolve_method cfg ext meth;
               contamination = get_contamination_by_sensitivity cfg sensitivity;
               (anoms, scs) =
                  (case methods cfg ext meth of
                     Some f \<Rightarrow>
                       (case f X contamination of
                          Inr r \<Rightarrow> r
                        | Inl e \<Rightarrow> (np_zeros_bool (length X), np_zeros (length X)))
                   | None \<Rightarrow> (np_zeros_bool (length X), np_zeros (length X)));
               detection_time = fl (fl (snd clock - t_start) * 1000)
           in \<lparr> method_used = meth,
                anomalies = anoms,
                scores = scs,
                timestamps = ts,
                values_of = vals,
                anomaly_count = np_sum_bool anoms,
                detection_time_ms = py_round detection_time 2 \<rparr>)"

subsection \<open>Priority\<close>

text \<open>
  The arguments are a finite float, an int and a finite float. The quotient
  \<open>points / 10\<close> is the only operation that can raise.
\<close>

definition calculate_priority :: "real \<Rightarrow> int \<Rightarrow> real \<Rightarrow> py_exception + real" where
  "calculate_priority max_sc points duration =
     (let score_weight = fl (5 / 10);
          points_weight = fl (3 / 10);
          duration_weight = fl (2 / 10);
          score_norm = max_sc
      in case py_int_truediv points 10 of
           Inl e \<Rightarrow> Inl e
         | Inr q \<Rightarrow>
             let points_norm = min q 1;
                 duration_norm = min (fl (duration / 600)) 1;
                 priority = fl (fl (fl (score_weight * score_norm)
                                    + fl (points_weight * points_norm))
                                + fl (duration_weight * duration_norm))
             in Inr (py_round priority 3))"


subsection \<open>group\_anomalies\<close>

text \<open>
  An event is a dictionary; the keys \<open>duration_seconds\<close> and \<open>priority\<close> are added to
  it after the scan, so the scan works on the record without them.
\<close>

record raw_event =
  start_time :: datetime
  end_time :: datetime
  metric :: string
  max_score :: real
  anomaly_points :: int
  peak_value :: real
  event_timestamps :: "datetime list"
  event_values :: "real list"

record event = raw_event +
  duration_seconds :: real
  priority :: real

text \<open>
  \<open>timedelta.total_seconds()\<close>: the difference of two datetimes is exact, its number of
  seconds the nearest float.
\<close>

definition total_seconds :: "real \<Rightarrow> real" where
  "total_seconds delta = fl delta"

definition new_event :: "string \<Rightarrow> datetime \<Rightarrow> real \<Rightarrow> real \<Rightarrow> raw_event" where
  "new_event metric_name ts score val =
     \<lparr> start_time = ts, end_time = ts, metric = metric_name, max_score = score,
       anomaly_points = 1, peak_value = val, event_timestamps = [ts], event_values = [val] \<rparr>"

text \<open>
  The assignments of the branch that continues the current event, in the order of the
  source: \<open>max_score\<close> is overwritten before the comparison that guards \<open>peak_value\<close>.
\<close>

definition extend_event :: "raw_event \<Rightarrow> datetime \<Rightarrow> real \<Rightarrow> real \<Rightarrow> raw_event" where
  "extend_event current_event ts score val =
     (let e = current_event \<lparr> end_time := ts \<rparr>;
          e = e \<lparr> max_score := max (max_score e) score \<rparr>;
          e = e \<lparr> anomaly_points := anomaly_points e + 1 \<rparr>;
          e = e \<lparr> event_timestamps := event_timestamps e @ [ts] \<rparr>;
          e = e \<lparr> event_values := event_values e @ [val] \<rparr>
      in if score > max_score e then e \<lparr> peak_value := val \<rparr> else e)"

text \<open>One iteration of the loop on the state \<open>(events, current_event)\<close>.\<close>

fun group_step ::
  "int \<Rightarrow> string \<Rightarrow> raw_event list \<times> raw_event option
     \<Rightarrow> datetime \<times> bool \<times> real \<times> real \<Rightarrow> raw_event list \<times> raw_event option" where
  "group_step window_seconds metric_name (events, current_event) (ts, is_anom, score, val) =
     (if \<not> is_anom then
        (case current_event of
           Some e \<Rightarrow> (events @ [e], None)
         | None \<Rightarrow> (events, None))
      else
        (case current_event of
           None \<Rightarrow> (events, Some (new_event metric_name ts score val))
         | Some e \<Rightarrow>
             let time_diff = total_seconds (ts - end_time e)
             in if time_diff \<le> real_of_int window_seconds
                then (events, Some (extend_event e ts score val))
                else (events @ [e], Some (new_event metric_name ts score val))))"

definition group_scan ::
  "int \<Rightarrow> string \<Rightarrow> (datetime \<times> bool \<times> real \<times> real) list
     \<Rightarrow> raw_event list \<times> raw_event option" where
  "group_scan window_seconds metric_name points =
     foldl (group_step window_seconds metric_name) ([], None) points"

definition close_last :: "raw_event list \<times> raw_event option \<Rightarrow> raw_event list" where
  "close_last st = (case snd st of Some e \<Rightarrow> fst st @ [e] | None \<Rightarrow> fst st)"

text \<open>The events after the scan, in the order in which they were closed.\<close>

definition closed_events ::
  "Settings \<Rightarrow> datetime list \<Rightarrow> bool list \<Rightarrow> real list \<Rightarrow> real list \<Rightarrow> string
     \<Rightarrow> raw_event list" where
  "closed_events cfg ts anoms scs vals metric_name =
     close_last (group_scan (anomaly_grouping_window_seconds cfg) metric_name
                   (zip ts (zip anoms (zip scs vals))))"

definition with_priority :: "raw_event \<Rightarrow> py_exception + event" where
  "with_priority e =
     (let duration = total_seconds (end_time e - start_time e)
      in case calculate_priority (max_score e) (anomaly_points e) duration of
           Inl x \<Rightarrow> Inl x
         | Inr p \<Rightarrow> Inr (raw_event.extend e (event.fields duration p)))"

text \<open>A loop over a list that stops at the first exception.\<close>

fun for_each :: "('a \<Rightarrow> py_exception + 'b) \<Rightarrow> 'a list \<Rightarrow> py_exception + 'b list" where
  "for_each f [] = Inr []"
| "for_each f (x # xs) =
     (case f x of
        Inl e \<Rightarrow> Inl e
      | Inr y \<Rightarrow> (case for_each f xs of Inl e \<Rightarrow> Inl e | Inr ys \<Rightarrow> Inr (y # ys)))"

text \<open>The events with duration and priority, before the final sort.\<close>

definition chronological_events ::
  "Settings \<Rightarrow> datetime list \<Rightarrow> bool list \<Rightarrow> real list \<Rightarrow> real list \<Rightarrow> string
     \<Rightarrow> py_exception + event list" where
  "chronological_events cfg ts anoms scs vals metric_name =
     for_each with_priority (closed_events cfg ts anoms scs vals metric_name)"

text \<open>
  \<open>list.sort(key=..., reverse=True)\<close> is stable: a stable sort on the negated key.
\<close>

definition group_anomalies ::
  "Settings \<Rightarrow> datetime list \<Rightarrow> bool list \<Rightarrow> real list \<Rightarrow> real list \<Rightarrow> string
     \<Rightarrow> py_exception + event list" where
  "group_anomalies cfg ts anoms scs vals metric_name =
     (if \<not> list_ex (\<lambda>b. b) anoms then Inr []
      else
        case chronological_events cfg ts anoms scs vals metric_name of
          Inl e \<Rightarrow> Inl e
        | Inr events \<Rightarrow> Inr (sort_key (\<lambda>x. - priority x) events))"


section \<open>Contracts and examples of the libraries\<close>

text \<open>
  What the detectors expect of the external models: one label and one score for every
  row of the matrix they are given.
\<close>

definition library_contract :: "external \<Rightarrow> bool" where
  "library_contract ext =
     ((\<forall>c F m. IsolationForest_fit ext c F = Inr m \<longrightarrow>
         (\<forall>ps. forest_predict m F = Inr ps \<longrightarrow> length ps = length F)
         \<and> (\<forall>ss. forest_score_samples m F = Inr ss \<longrightarrow> length ss = length F))
      \<and> (\<forall>k c F ps nof. LocalOutlierFactor_fit_predict ext k c F = Inr (ps, nof) \<longrightarrow>
             length ps = length F \<and> length nof = length F)
      \<and> (\<forall>d f F ss. MatrixProfile_new ext = Inr d \<longrightarrow> detector_fit d F = Inr f \<longrightarrow>
             f F = Inr ss \<longrightarrow> length ss = length F)
      \<and> (\<forall>d f F ss. IForest_new ext = Inr d \<longrightarrow> detector_fit d F = Inr f \<longrightarrow>
             f F = Inr ss \<longrightarrow> length ss = length F))"

text \<open>
  An instance of the libraries for concrete evaluations: an isolation forest and a local
  outlier factor that label every row as normal, and no dtaianomaly package.
\<close>

definition all_normal_forest :: fitted_forest where
  "all_normal_forest =
     \<lparr> forest_predict = (\<lambda>F. Inr (replicate (length F) 1)),
       forest_score_samples = (\<lambda>F. Inr (replicate (length F) (Num 0))) \<rparr>"

definition all_normal_external :: external where
  "all_normal_external =
     \<lparr> IsolationForest_fit = (\<lambda>c F. Inr all_normal_forest),
       LocalOutlierFactor_fit_predict =
         (\<lambda>k c F. Inr (replicate (length F) 1, replicate (length F) (Num (- 1)))),
       np_exp = (\<lambda>x. case x of Num a \<Rightarrow> np_round (exp a) | PosInf \<Rightarrow> PosInf
                         | NegInf \<Rightarrow> Num 0 | NaN \<Rightarrow> NaN),
       np_percentile = (\<lambda>xs q. Inl ValueError),
       DTAI_AVAILABLE = False,
       MatrixProfile_new = Inl ImportError,
       IForest_new = Inl ImportError \<rparr>"

section \<open>Properties\<close>

subsection \<open>Rounding to the nearest double\<close>

lemma round_half_even_lower: "of_int a \<le> x \<Longrightarrow> a \<le> round_half_even x"
  unfolding round_half_even_def Let_def by (auto simp: le_floor_iff) linarith+

lemma round_half_even_upper:
  assumes h: "x \<le> of_int b"
  shows "round_half_even x \<le> b"
proof -
  have fl: "\<lfloor>x\<rfloor> \<le> b" using h by (simp add: floor_le_iff)
  show ?thesis
  proof (cases "\<lfloor>x\<rfloor> = b")
    case True
    then have "x - of_int \<lfloor>x\<rfloor> \<le> 0" using h by simp
    then show ?thesis using True by (simp add: round_half_even_def Let_def)
  next
    case False
    then have "\<lfloor>x\<rfloor> + 1 \<le> b" using fl by simp
    then show ?thesis using fl by (simp add: round_half_even_def Let_def)
  qed
qed

lemma round_half_even_of_int: "round_half_even (of_int k) = k"
  by (simp add: round_half_even_def)

lemma round_half_even_bounds:
  "\<lfloor>x\<rfloor> \<le> round_half_even x \<and> round_half_even x \<le> \<lfloor>x\<rfloor> + 1"
  by (simp add: round_half_even_def Let_def)


lemma round_half_even_mono:
  assumes "x \<le> y"
  shows "round_half_even x \<le> round_half_even y"
proof (cases "\<lfloor>x\<rfloor> = \<lfloor>y\<rfloor>")
  case True
  then show ?thesis using assms by (auto simp: round_half_even_def Let_def)
next
  case False
  then have "\<lfloor>x\<rfloor> + 1 \<le> \<lfloor>y\<rfloor>" using assms floor_mono [of x y] by linarith
  then show ?thesis
    using round_half_even_bounds [of x] round_half_even_bounds [of y] by linarith
qed

lemma round_half_even_minus: "round_half_even (- x) = - round_half_even x"
proof (cases "x = of_int \<lfloor>x\<rfloor>")
  case True
  then obtain k where "x = of_int k" by metis
  then show ?thesis by (simp add: round_half_even_of_int flip: of_int_minus)
next
  case False
  then have f: "\<lfloor>- x\<rfloor> = - \<lfloor>x\<rfloor> - 1"
    by (metis False ceiling_def floor_minus ceiling_altdef minus_diff_eq diff_minus_eq_add
          of_int_floor_cancel add.commute uminus_add_conv_diff add.inverse_inverse)
  show ?thesis unfolding round_half_even_def Let_def f by auto
qed


lemma pow2_powr: "pow2 e = 2 powr (of_int e)"
proof (cases "0 \<le> e")
  case True
  then show ?thesis by (simp add: pow2_def powr_realpow [symmetric])
next
  case False
  then have "real_of_int e = - real (nat (- e))" by simp
  then have "2 powr (of_int e) = 1 / 2 powr real (nat (- e))"
    by (simp only: powr_minus_divide)
  also have "\<dots> = 1 / 2 ^ nat (- e)" by (simp only: powr_realpow zero_less_numeral)
  finally show ?thesis using False by (simp add: pow2_def)
qed

lemma pow2_pos: "0 < pow2 e"
  by (simp add: pow2_powr)

lemma pow2_add: "pow2 (a + b) = pow2 a * pow2 b"
  by (simp add: pow2_powr powr_add)

lemma pow2_mono: "a \<le> b \<Longrightarrow> pow2 a \<le> pow2 b"
  by (simp add: pow2_powr)

lemma pow2_52: "pow2 e = 2 ^ 52 * pow2 (e - 52)"
proof -
  have "e = 52 + (e - 52)" by simp
  then have "pow2 e = pow2 (52 + (e - 52))" by (rule arg_cong)
  also have "\<dots> = pow2 52 * pow2 (e - 52)" by (rule pow2_add)
  finally show ?thesis by (simp add: pow2_def)
qed

lemma pow2_53: "pow2 (e + 1) = 2 ^ 53 * pow2 (e - 52)"
proof -
  have "e + 1 = 53 + (e - 52)" by simp
  then have "pow2 (e + 1) = pow2 (53 + (e - 52))" by (rule arg_cong)
  also have "\<dots> = pow2 53 * pow2 (e - 52)" by (rule pow2_add)
  finally show ?thesis by (simp add: pow2_def)
qed

lemma floor_log2_bounds:
  assumes "x \<noteq> 0"
  shows "pow2 \<lfloor>log 2 \<bar>x\<bar>\<rfloor> \<le> \<bar>x\<bar> \<and> \<bar>x\<bar> < pow2 (\<lfloor>log 2 \<bar>x\<bar>\<rfloor> + 1)"
  using assms floor_log_eq_powr_iff [of "\<bar>x\<bar>" 2 "\<lfloor>log 2 \<bar>x\<bar>\<rfloor>"]
  by (simp add: pow2_powr)

lemma floor_log2_eq:
  assumes "pow2 e \<le> \<bar>x\<bar>" "\<bar>x\<bar> < pow2 (e + 1)"
  shows "\<lfloor>log 2 \<bar>x\<bar>\<rfloor> = e"
proof -
  have "0 < \<bar>x\<bar>" using assms(1) pow2_pos [of e] by linarith
  then show ?thesis
    using assms floor_log_eq_powr_iff [of "\<bar>x\<bar>" 2 e] by (simp add: pow2_powr)
qed

text \<open>Evaluation of fl when the binade is known.\<close>

lemma fl_eval:
  assumes "pow2 e \<le> \<bar>x\<bar>" "\<bar>x\<bar> < pow2 (e + 1)" "- 1022 \<le> e"
  shows "fl x = of_int (round_half_even (x / pow2 (e - 52))) * pow2 (e - 52)"
proof -
  have "x \<noteq> 0" using assms(1) pow2_pos [of e] by auto
  moreover have "float_exponent x = e"
    using floor_log2_eq [OF assms(1,2)] assms(3) by (simp add: float_exponent_def)
  ultimately show ?thesis by (simp add: fl_def ulp_def)
qed

lemma fl_0: "fl 0 = 0"
  by (simp add: fl_def)

lemma ulp_pos: "0 < ulp x"
  by (simp add: ulp_def pow2_pos)

lemma ulp_minus: "ulp (- x) = ulp x"
  by (simp add: ulp_def float_exponent_def)

lemma fl_minus: "fl (- x) = - fl x"
  by (simp add: fl_def ulp_minus round_half_even_minus)

lemma float_exponent_mono:
  assumes "0 < x" "x \<le> y"
  shows "float_exponent x \<le> float_exponent y"
proof -
  have "log 2 x \<le> log 2 y" using assms by simp
  then have "\<lfloor>log 2 \<bar>x\<bar>\<rfloor> \<le> \<lfloor>log 2 \<bar>y\<bar>\<rfloor>" using assms by (simp add: floor_mono)
  then show ?thesis by (simp add: float_exponent_def)
qed

text \<open>Within its binade: \<open>x / ulp x\<close> lies below \<open>2 ^ 53\<close>; above \<open>2 ^ 52\<close> unless subnormal.\<close>

lemma binade_upper:
  assumes "x \<noteq> 0"
  shows "\<bar>x\<bar> < pow2 (float_exponent x + 1)"
proof -
  have "\<bar>x\<bar> < pow2 (\<lfloor>log 2 \<bar>x\<bar>\<rfloor> + 1)" using floor_log2_bounds [OF assms] by simp
  also have "\<dots> \<le> pow2 (float_exponent x + 1)"
    by (intro pow2_mono) (simp add: float_exponent_def)
  finally show ?thesis .
qed

lemma binade_lower:
  assumes "x \<noteq> 0" "- 1022 < float_exponent x"
  shows "pow2 (float_exponent x) \<le> \<bar>x\<bar>"
proof -
  have "float_exponent x = \<lfloor>log 2 \<bar>x\<bar>\<rfloor>" using assms(2) by (simp add: float_exponent_def)
  then show ?thesis using floor_log2_bounds [OF assms(1)] by simp
qed

lemma fl_upper:
  assumes "0 < x"
  shows "fl x \<le> pow2 (float_exponent x + 1)"
proof -
  have "x / ulp x \<le> pow2 (float_exponent x + 1) / ulp x"
    using binade_upper [of x] assms ulp_pos [of x] by (simp add: divide_right_mono)
  also have "\<dots> = of_int (2 ^ 53)"
    using pow2_pos [of "float_exponent x - 52"] by (simp add: ulp_def pow2_53)
  finally have "round_half_even (x / ulp x) \<le> 2 ^ 53" by (rule round_half_even_upper)
  then have "real_of_int (round_half_even (x / ulp x)) \<le> 2 ^ 53"
    by (metis of_int_le_iff of_int_numeral of_int_power)
  then have "real_of_int (round_half_even (x / ulp x)) * ulp x \<le> 2 ^ 53 * ulp x"
    using ulp_pos [of x] by (simp add: mult_right_mono)
  then show ?thesis using assms by (simp add: fl_def ulp_def pow2_53)
qed

lemma fl_lower:
  assumes "0 < x" "- 1022 < float_exponent x"
  shows "pow2 (float_exponent x) \<le> fl x"
proof -
  have "pow2 (float_exponent x) / ulp x \<le> x / ulp x"
    using binade_lower [of x] assms ulp_pos [of x] by (simp add: divide_right_mono)
  moreover have "pow2 (float_exponent x) / ulp x = of_int (2 ^ 52)"
    using pow2_pos [of "float_exponent x - 52"] pow2_52 [of "float_exponent x"]
    by (simp add: ulp_def)
  ultimately have "of_int (2 ^ 52) \<le> x / ulp x" by simp
  then have "2 ^ 52 \<le> round_half_even (x / ulp x)" by (rule round_half_even_lower)
  then have "2 ^ 52 \<le> real_of_int (round_half_even (x / ulp x))"
    by (metis of_int_le_iff of_int_numeral of_int_power)
  then have "2 ^ 52 * ulp x \<le> real_of_int (round_half_even (x / ulp x)) * ulp x"
    using ulp_pos [of x] by (simp add: mult_right_mono)
  then show ?thesis using assms pow2_52 [of "float_exponent x"] by (simp add: fl_def ulp_def)
qed

lemma fl_nonneg: "0 \<le> x \<Longrightarrow> 0 \<le> fl x"
proof -
  assume "0 \<le> x"
  then have "0 \<le> x / ulp x" using ulp_pos [of x] by simp
  then have "0 \<le> round_half_even (x / ulp x)"
    using round_half_even_lower [of 0 "x / ulp x"] by simp
  then show ?thesis using ulp_pos [of x] by (simp add: fl_def)
qed

lemma fl_mono_pos:
  assumes "0 < x" "x \<le> y"
  shows "fl x \<le> fl y"
proof (cases "float_exponent x = float_exponent y")
  case True
  then have u: "ulp x = ulp y" by (simp add: ulp_def)
  have "x / ulp y \<le> y / ulp y" using assms ulp_pos [of y] by (simp add: divide_right_mono)
  then have "round_half_even (x / ulp y) \<le> round_half_even (y / ulp y)"
    by (rule round_half_even_mono)
  then have "real_of_int (round_half_even (x / ulp y)) * ulp y
               \<le> real_of_int (round_half_even (y / ulp y)) * ulp y"
    using ulp_pos [of y] by (simp add: mult_right_mono)
  then show ?thesis using assms by (simp add: fl_def u)
next
  case False
  then have lt: "float_exponent x < float_exponent y"
    using float_exponent_mono [OF assms] by simp
  have "- 1022 \<le> float_exponent x" by (simp add: float_exponent_def)
  then have ny: "- 1022 < float_exponent y" using lt by simp
  have "fl x \<le> pow2 (float_exponent x + 1)" using fl_upper [OF assms(1)] .
  also have "\<dots> \<le> pow2 (float_exponent y)" using lt by (intro pow2_mono) simp
  also have "\<dots> \<le> fl y" using fl_lower [of y] assms ny by simp
  finally show ?thesis .
qed

lemma fl_mono:
  assumes "x \<le> y"
  shows "fl x \<le> fl y"
proof -
  consider "0 < x" | "x \<le> 0" "0 \<le> y" | "y < 0" by linarith
  then show ?thesis
  proof cases
    case 1
    then show ?thesis using fl_mono_pos assms by simp
  next
    case 2
    have "fl x \<le> 0" using fl_nonneg [of "- x"] 2(1) by (simp add: fl_minus)
    then show ?thesis using fl_nonneg [OF 2(2)] by simp
  next
    case 3
    then have "fl (- y) \<le> fl (- x)" using fl_mono_pos [of "- y" "- x"] assms by simp
    then show ?thesis by (simp add: fl_minus)
  qed
qed


lemma fl_1: "fl 1 = 1"
  using fl_eval [of 0 1] by (simp add: pow2_def round_half_even_def)

lemma fl_half: "fl (1 / 2) = 1 / 2"
  using fl_eval [of "- 1" "1 / 2"] by (simp add: pow2_def round_half_even_def)



lemma fl_1_10: "fl (1 / 10) = 3602879701896397 / 2 ^ 55"
  using fl_eval [of "- 4" "1 / 10"] by (simp add: pow2_def round_half_even_def)

lemma fl_300: "fl 300 = 300"
  using fl_eval [of 8 300] by (simp add: pow2_def round_half_even_def)

lemma s1: "fl (1 / 2 + 5404319552844595 / 2 ^ 54) = 3602879701896397 / 2 ^ 52"
  using fl_eval [of "- 1" "1 / 2 + 5404319552844595 / 2 ^ 54"]
  by (simp add: pow2_def round_half_even_def)

lemma s2: "fl (3602879701896397 / 2 ^ 52 + 3602879701896397 / 2 ^ 54) = 1"
  using fl_eval [of 0 "3602879701896397 / 2 ^ 52 + 3602879701896397 / 2 ^ 54"]
  by (simp add: pow2_def round_half_even_def)






lemma fl_pow2_1023: "fl (2 ^ 1023) = 2 ^ 1023"
  using fl_eval [of 1023 "2 ^ 1023"] by (simp add: pow2_def round_half_even_def)









lemma py_int_truediv_10:
  assumes "0 \<le> pc"
  shows "case py_int_truediv pc 10 of
           Inl e \<Rightarrow> e = OverflowError \<and> 2 ^ 1024 \<le> pc
         | Inr q \<Rightarrow> q = fl (real_of_int pc / 10)"
proof (cases "pc < 2 ^ 1024")
  case True
  then have "real_of_int pc < 2 ^ 1024"
    by (metis of_int_less_iff of_int_numeral of_int_power)
  then have "real_of_int pc / 10 \<le> 2 ^ 1023" by simp
  then have "fl (real_of_int pc / 10) \<le> 2 ^ 1023" using fl_mono fl_pow2_1023 by metis
  moreover have "0 \<le> fl (real_of_int pc / 10)" using assms by (intro fl_nonneg) simp
  ultimately have "\<not> 2 ^ 1024 \<le> \<bar>fl (real_of_int pc / 10)\<bar>" by simp
  then show ?thesis by (simp add: py_int_truediv_def Let_def)
next
  case False
  then show ?thesis by (simp add: py_int_truediv_def Let_def)
qed


lemma pv_1: "fl (1 / 200) = 5764607523034235 / 1152921504606846976"
  using fl_eval [of "- 8" "1 / 200"]
  by (simp add: pow2_def round_half_even_def)

lemma pv_2: "fl (3 / 10) = 5404319552844595 / 18014398509481984"
  using fl_eval [of "- 2" "3 / 10"]
  by (simp add: pow2_def round_half_even_def)

lemma pv_3: "fl (1 / 5) = 3602879701896397 / 18014398509481984"
  using fl_eval [of "- 3" "1 / 5"]
  by (simp add: pow2_def round_half_even_def)

lemma pv_4: "fl (5404319552844595 / 18014398509481984) = 5404319552844595 / 18014398509481984"
  using fl_eval [of "- 2" "5404319552844595 / 18014398509481984"]
  by (simp add: pow2_def round_half_even_def)

lemma pv_5: "fl (14411518807585587 / 18014398509481984) = 3602879701896397 / 4503599627370496"
  using fl_eval [of "- 1" "14411518807585587 / 18014398509481984"]
  by (simp add: pow2_def round_half_even_def)

lemma pv_6: "fl (3602879701896397 / 18014398509481984) = 3602879701896397 / 18014398509481984"
  using fl_eval [of "- 3" "3602879701896397 / 18014398509481984"]
  by (simp add: pow2_def round_half_even_def)

lemma pv_7: "fl (18014398509481985 / 18014398509481984) = 1"
  using fl_eval [of 0 "18014398509481985 / 18014398509481984"]
  by (simp add: pow2_def round_half_even_def)

lemma pv_8: "fl (1 / 10) = 3602879701896397 / 36028797018963968"
  using fl_eval [of "- 4" "1 / 10"]
  by (simp add: pow2_def round_half_even_def)

lemma pv_9: "fl (5764607523034235 / 2305843009213693952) = 5764607523034235 / 2305843009213693952"
  using fl_eval [of "- 9" "5764607523034235 / 2305843009213693952"]
  by (simp add: pow2_def round_half_even_def)

lemma pv_10: "fl (19471113219505603967277331424215 / 649037107316853453566312041152512) = 1080863910568919 / 36028797018963968"
  using fl_eval [of "- 6" "19471113219505603967277331424215 / 649037107316853453566312041152512"]
  by (simp add: pow2_def round_half_even_def)

lemma pv_11: "fl (74939897799445051 / 2305843009213693952) = 1170935903116329 / 36028797018963968"
  using fl_eval [of "- 5" "74939897799445051 / 2305843009213693952"]
  by (simp add: pow2_def round_half_even_def)

lemma pv_12: "fl (1170935903116329 / 36028797018963968) = 1170935903116329 / 36028797018963968"
  using fl_eval [of "- 5" "1170935903116329 / 36028797018963968"]
  by (simp add: pow2_def round_half_even_def)

lemma pv_13: "fl (1 / 400) = 5764607523034235 / 2305843009213693952"
  using fl_eval [of "- 9" "1 / 400"]
  by (simp add: pow2_def round_half_even_def)

lemma pv_14: "fl (20769187434139312099389054151295 / 41538374868278621028243970633760768) = 1152921504606847 / 2305843009213693952"
  using fl_eval [of "- 11" "20769187434139312099389054151295 / 41538374868278621028243970633760768"]
  by (simp add: pow2_def round_half_even_def)

lemma pv_15: "fl (1152921504606847 / 2305843009213693952) = 1152921504606847 / 2305843009213693952"
  using fl_eval [of "- 11" "1152921504606847 / 2305843009213693952"]
  by (simp add: pow2_def round_half_even_def)

lemmas priority_values = pv_1 pv_2 pv_3 pv_4 pv_5 pv_6 pv_7 pv_8 pv_9 pv_10 pv_11 pv_12 pv_13 pv_14 pv_15

lemmas priority_eval =
  calculate_priority_def py_int_truediv_def py_round_def Let_def round_half_even_def
  fl_0 fl_1 fl_half priority_values




lemma calculate_priority_example_2:
  "calculate_priority 0 0 (3 / 2) = Inr (fl (1 / 1000))"
  by (simp add: priority_eval)





subsection \<open>The outcome of detect\<close>

lemma np_sum_bool_count: "np_sum_bool bs = int (length (filter (\<lambda>b. b) bs))"
  by (induction bs) (simp_all add: np_sum_bool_def)

lemma np_sum_bool_zeros: "np_sum_bool (np_zeros_bool n) = 0"
  by (simp add: np_sum_bool_count np_zeros_bool_def)

lemma ZScoreDetector_fit_predict_length:
  "ZScoreDetector_fit_predict d X = Inr (a, s) \<Longrightarrow> length a = length X \<and> length s = length X"
  by (auto simp: ZScoreDetector_fit_predict_def ZScoreDetector_fit_def ZScoreDetector_predict_def
        np_zeros_def np_zeros_bool_def Let_def split: if_splits)

lemma MovingAverageDetector_predict_length:
  "MovingAverageDetector_predict d X = Inr (a, s) \<Longrightarrow> length a = length X \<and> length s = length X"
  by (auto simp: MovingAverageDetector_predict_def rolling_mean_def rolling_std_def replace_zero_def
        assign_prefix_zero_def np_zeros_def np_zeros_bool_def Let_def split: if_splits)

lemma prepare_features_length: "prepare_features X = Inr F \<Longrightarrow> length F = length X"
  by (cases X) (auto simp: prepare_features_def Let_def split: if_splits)

lemma min_max_normalize_length: "min_max_normalize ss = Inr ns \<Longrightarrow> length ns = length ss"
  by (auto simp: min_max_normalize_def split: sum.splits)

lemma IsolationForestDetector_fit_predict_length:
  assumes "library_contract ext"
    and "IsolationForestDetector_fit_predict ext d X = Inr (a, s)"
  shows "length a = length X \<and> length s = length X"
proof -
  obtain F where F: "prepare_features X = Inr F"
    using assms(2)
    by (auto simp: IsolationForestDetector_fit_predict_def IsolationForestDetector_fit_def
          split: sum.splits)
  obtain m where m: "IsolationForest_fit ext (forest_contamination d) F = Inr m"
    using assms(2) F
    by (auto simp: IsolationForestDetector_fit_predict_def IsolationForestDetector_fit_def
          split: sum.splits)
  obtain ps ss where ps: "forest_predict m F = Inr ps" and ss: "forest_score_samples m F = Inr ss"
      and a: "a = map (\<lambda>p. p = - 1) ps"
      and s: "s = map (\<lambda>s. np_div (Num 1) (np_add (Num 1) (np_exp ext s))) ss"
    using assms(2) F m
    by (auto simp: IsolationForestDetector_fit_predict_def IsolationForestDetector_fit_def
          IsolationForestDetector_predict_def Let_def split: sum.splits)
  have "length ps = length F" "length ss = length F"
    using assms(1) m ps ss unfolding library_contract_def by blast+
  then show ?thesis using a s prepare_features_length [OF F] by simp
qed

lemma LOFDetector_fit_predict_length:
  assumes "library_contract ext"
    and "LOFDetector_fit_predict ext d X = Inr (a, s)"
  shows "length a = length X \<and> length s = length X"
proof -
  obtain F where F: "prepare_features X = Inr F"
    using assms(2) by (auto simp: LOFDetector_fit_predict_def split: sum.splits)
  define k where "k = min (n_neighbors d) (int (length X) - 1)"
  show ?thesis
  proof (cases "k < 2")
    case True
    then show ?thesis
      using assms(2) F
      by (auto simp: LOFDetector_fit_predict_def Let_def k_def np_zeros_def np_zeros_bool_def)
  next
    case False
    obtain ps nof where l: "LocalOutlierFactor_fit_predict ext k (lof_contamination d) F = Inr (ps, nof)"
        and a: "a = map (\<lambda>p. p = - 1) ps"
        and s: "min_max_normalize (map np_neg nof) = Inr s"
      using assms(2) F False
      by (auto simp: LOFDetector_fit_predict_def Let_def k_def split: sum.splits)
    have "length ps = length F" "length nof = length F"
      using assms(1) l unfolding library_contract_def by blast+
    then show ?thesis
      using a min_max_normalize_length [OF s] prepare_features_length [OF F] by simp
  qed
qed

lemma DTAIDetector_try_length:
  assumes "library_contract ext"
    and "DTAIDetector_init ext meth c = Inr d"
    and "DTAIDetector_try ext d X = Inr (a, s)"
  shows "length a = length X \<and> length s = length X"
proof -
  have det: "MatrixProfile_new ext = Inr (detector d) \<or> IForest_new ext = Inr (detector d)"
    using assms(2) by (auto simp: DTAIDetector_init_def split: if_splits sum.splits)
  obtain f scs where f: "detector_fit (detector d) (map (\<lambda>x. [Num x]) X) = Inr f"
      and scs: "f (map (\<lambda>x. [Num x]) X) = Inr scs"
      and s: "min_max_normalize scs = Inr s"
      and a: "length a = length s"
    using assms(3) by (auto simp: DTAIDetector_try_def Let_def split: sum.splits)
  have "length scs = length (map (\<lambda>x. [Num x]) X)"
    using assms(1) det f scs unfolding library_contract_def by blast
  then show ?thesis using a min_max_normalize_length [OF s] by simp
qed

lemma DTAIDetector_fit_predict_length:
  assumes "library_contract ext"
    and "DTAIDetector_init ext meth c = Inr d"
    and "DTAIDetector_fit_predict ext d X = Inr (a, s)"
  shows "length a = length X \<and> length s = length X"
proof (cases "DTAIDetector_try ext d X")
  case (Inl e)
  then show ?thesis using assms(3)
    by (auto simp: DTAIDetector_fit_predict_def np_zeros_def np_zeros_bool_def)
next
  case (Inr r)
  then show ?thesis using assms(3) DTAIDetector_try_length [OF assms(1,2), of X a s]
    by (simp add: DTAIDetector_fit_predict_def)
qed

lemma methods_length:
  assumes "library_contract ext"
    and "methods cfg ext m = Some f" and "f X c = Inr (a, s)"
  shows "length a = length X \<and> length s = length X"
proof -
  have iso: "detect_isolation_forest ext X c = Inr (a, s) \<Longrightarrow> ?thesis"
    using IsolationForestDetector_fit_predict_length [OF assms(1)]
    by (simp add: detect_isolation_forest_def)
  have cases: "f = detect_zscore cfg \<or> f = detect_moving_average cfg \<or> f = detect_isolation_forest ext
      \<or> f = detect_lof ext \<or> f = detect_prophet ext \<or> f = detect_dtai_auto ext"
    using assms(2) by (auto simp: methods_def split: if_splits)
  then consider "f = detect_zscore cfg" | "f = detect_moving_average cfg" | "f = detect_isolation_forest ext"
      | "f = detect_lof ext" | "f = detect_prophet ext" | "f = detect_dtai_auto ext" by blast
  then show ?thesis
  proof cases
    case 1 then show ?thesis using assms(3) ZScoreDetector_fit_predict_length
      by (simp add: detect_zscore_def)
  next
    case 2 then show ?thesis using assms(3) MovingAverageDetector_predict_length
      by (simp add: detect_moving_average_def MovingAverageDetector_fit_predict_def)
  next
    case 3 then show ?thesis using assms(3) iso by simp
  next
    case 4 then show ?thesis using assms(3) LOFDetector_fit_predict_length [OF assms(1)]
      by (simp add: detect_lof_def)
  next
    case 5 then show ?thesis using assms(3)
      by (simp add: detect_prophet_def ProphetDetector_fit_predict_def)
  next
    case 6
    show ?thesis
    proof (cases "DTAI_AVAILABLE ext")
      case False
      then show ?thesis using 6 assms(3) iso by (simp add: detect_dtai_auto_def)
    next
      case True
      then obtain d where d: "DTAIDetector_init ext ''matrix-profile'' c = Inr d"
          and r: "DTAIDetector_fit_predict ext d X = Inr (a, s)"
        using 6 assms(3) by (auto simp: detect_dtai_auto_def split: sum.splits)
      show ?thesis using DTAIDetector_fit_predict_length [OF assms(1) d r] .
    qed
  qed
qed

lemma detect_empty: "detect cfg ext clock ts [] meth sens = empty_result 0"
  by (simp add: detect_def)

lemma detect_nonempty:
  "vals \<noteq> [] \<Longrightarrow>
   detect cfg ext clock ts vals meth sens =
     (let m = resolve_method cfg ext meth;
          r = (case methods cfg ext m of
                 Some f \<Rightarrow> (case f vals (get_contamination_by_sensitivity cfg sens) of
                              Inr r \<Rightarrow> r
                            | Inl e \<Rightarrow> (np_zeros_bool (length vals), np_zeros (length vals)))
               | None \<Rightarrow> (np_zeros_bool (length vals), np_zeros (length vals)))
      in \<lparr> method_used = m, anomalies = fst r, scores = snd r, timestamps = ts, values_of = vals,
           anomaly_count = np_sum_bool (fst r),
           detection_time_ms = py_round (fl (fl (snd clock - fst clock) * 1000)) 2 \<rparr>)"
  by (simp add: detect_def Let_def split: prod.splits)

lemma detect_anomaly_count:
  "anomaly_count (detect cfg ext clock ts vals meth sens)
     = int (length (filter (\<lambda>b. b) (anomalies (detect cfg ext clock ts vals meth sens))))"
  by (cases "vals = []")
     (simp_all add: detect_empty empty_result_def detect_nonempty Let_def np_sum_bool_count)

lemma detect_lengths:
  assumes "library_contract ext"
  shows "length (anomalies (detect cfg ext clock ts vals meth sens)) = length vals
       \<and> length (scores (detect cfg ext clock ts vals meth sens)) = length vals"
proof (cases "vals = []")
  case True
  then show ?thesis by (simp add: detect_empty empty_result_def)
next
  case False
  show ?thesis
  proof (cases "methods cfg ext (resolve_method cfg ext meth)")
    case None
    then show ?thesis using False
      by (simp add: detect_nonempty Let_def np_zeros_def np_zeros_bool_def)
  next
    case (Some f)
    show ?thesis
    proof (cases "f vals (get_contamination_by_sensitivity cfg sens)")
      case (Inl e)
      then show ?thesis using False Some
        by (simp add: detect_nonempty Let_def np_zeros_def np_zeros_bool_def)
    next
      case (Inr r)
      obtain a s where r: "r = (a, s)" by (cases r)
      have "length a = length vals \<and> length s = length vals"
        using methods_length [OF assms Some] Inr r by simp
      then show ?thesis using False Some Inr r
        by (simp add: detect_nonempty Let_def)
    qed
  qed
qed

subsection \<open>Evaluation of the z-score detector\<close>

lemma zv_1: "fl 2 = 2"
  using fl_eval [of 1 2]
  by (simp add: pow2_def round_half_even_def)

lemma zv_2: "fl 4 = 4"
  using fl_eval [of 2 4]
  by (simp add: pow2_def round_half_even_def)

lemma zv_3: "fl (1 / 6) = 6004799503160661 / 36028797018963968"
  using fl_eval [of "- 3" "1 / 6"]
  by (simp add: pow2_def round_half_even_def)

lemma zv_4: "fl 3 = 3"
  using fl_eval [of 1 3]
  by (simp add: pow2_def round_half_even_def)

lemma zv_5: "fl (3602879701896397 / 36028797018963968) = 3602879701896397 / 36028797018963968"
  using fl_eval [of "- 4" "3602879701896397 / 36028797018963968"]
  by (simp add: pow2_def round_half_even_def)

lemma zv_6: "fl (3602879701896397 / 18014398509481984) = 3602879701896397 / 18014398509481984"
  using fl_eval [of "- 3" "3602879701896397 / 18014398509481984"]
  by (simp add: pow2_def round_half_even_def)

lemma zv_7: "fl (10808639105689191 / 36028797018963968) = 1351079888211149 / 4503599627370496"
  using fl_eval [of "- 2" "10808639105689191 / 36028797018963968"]
  by (simp add: pow2_def round_half_even_def)

lemma zv_8: "fl (1351079888211149 / 4503599627370496) = 1351079888211149 / 4503599627370496"
  using fl_eval [of "- 2" "1351079888211149 / 4503599627370496"]
  by (simp add: pow2_def round_half_even_def)

lemma zv_9: "fl (1351079888211149 / 13510798882111488) = 7205759403792795 / 72057594037927936"
  using fl_eval [of "- 4" "1351079888211149 / 13510798882111488"]
  by (simp add: pow2_def round_half_even_def)

lemma zv_10: "fl (1 / 72057594037927936) = 1 / 72057594037927936"
  using fl_eval [of "- 56" "1 / 72057594037927936"]
  by (simp add: pow2_def round_half_even_def)

lemma zv_11: "fl (1 / 5192296858534827628530496329220096) = 1 / 5192296858534827628530496329220096"
  using fl_eval [of "- 112" "1 / 5192296858534827628530496329220096"]
  by (simp add: pow2_def round_half_even_def)

lemma zv_12: "fl (1 / 2596148429267413814265248164610048) = 1 / 2596148429267413814265248164610048"
  using fl_eval [of "- 111" "1 / 2596148429267413814265248164610048"]
  by (simp add: pow2_def round_half_even_def)

lemma zv_13: "fl (3 / 5192296858534827628530496329220096) = 3 / 5192296858534827628530496329220096"
  using fl_eval [of "- 111" "3 / 5192296858534827628530496329220096"]
  by (simp add: pow2_def round_half_even_def)

lemmas zscore_values = zv_1 zv_2 zv_3 zv_4 zv_5 zv_6 zv_7 zv_8 zv_9 zv_10 zv_11 zv_12 zv_13

lemma pairwise_sum_short: "length xs < 8 \<Longrightarrow> pairwise_sum xs = foldl np_add (Num 0) xs"
  by (subst pairwise_sum.simps) simp

lemma sqrt_pow2_112: "sqrt (1 / 5192296858534827628530496329220096) = 1 / 72057594037927936"
  by (rule real_sqrt_unique) (simp_all add: power2_eq_square)

lemmas zscore_eval =
  ZScoreDetector_fit_predict_def ZScoreDetector_fit_def ZScoreDetector_predict_def
  ZScoreDetector_init_def np_mean_def np_std_def np_sum_def pairwise_sum_short np_round_def
  np_double_def Let_def fl_0 fl_1 fl_half fl_minus zscore_values sqrt_pow2_112

lemma ZScoreDetector_example:
  "ZScoreDetector_fit_predict (ZScoreDetector_init 3) [1, 3]
     = Inr ([False, False], [Num (fl (1 / 6)), Num (fl (1 / 6))])"
  by (simp add: zscore_eval)

lemma np_std_tenths: "np_std [fl (1 / 10), fl (1 / 10), fl (1 / 10)] = Num (1 / 2 ^ 56)"
  by (simp add: zscore_eval fl_1_10)

lemma ZScoreDetector_tenths:
  "ZScoreDetector_fit_predict (ZScoreDetector_init 3) [fl (1 / 10), fl (1 / 10), fl (1 / 10)]
     = Inr ([False, False, False], [Num (fl (1 / 6)), Num (fl (1 / 6)), Num (fl (1 / 6))])"
  by (simp add: zscore_eval fl_1_10)


subsection \<open>The example libraries\<close>

lemma all_normal_external_contract: "library_contract all_normal_external"
  by (auto simp: library_contract_def all_normal_external_def all_normal_forest_def)

lemma fl_exp_0: "np_exp all_normal_external (Num 0) = Num 1"
  by (simp add: all_normal_external_def np_round_def fl_1)

lemma detect_isolation_forest_example:
  "detect_isolation_forest all_normal_external [5, 7] c
     = Inr ([False, False], [Num (1 / 2), Num (1 / 2)])"
proof -
  obtain F where F: "prepare_features [5, 7] = Inr F" "length F = 2"
    by (simp add: prepare_features_def Let_def)
  have "IsolationForestDetector_fit_predict all_normal_external (IsolationForestDetector_init c) [5, 7]
      = Inr (map (\<lambda>p. p = - 1) (replicate 2 (1::int)),
             map (\<lambda>s. np_div (Num 1) (np_add (Num 1) (np_exp all_normal_external s)))
                 (replicate 2 (Num 0)))"
    using F
    by (simp add: IsolationForestDetector_fit_predict_def IsolationForestDetector_fit_def
          IsolationForestDetector_predict_def IsolationForestDetector_init_def
          all_normal_external_def all_normal_forest_def)
  then show ?thesis
    by (simp add: detect_isolation_forest_def fl_exp_0 np_round_def zv_1 fl_half numeral_2_eq_2)
qed

lemma dom_methods:
  "dom (methods cfg ext) =
     {''z-score'', ''moving-average'', ''isolation-forest'', ''lof'', ''prophet'', ''dtai-auto''}"
  by (auto simp: methods_def split: if_splits)

lemma dom_sensitivity_map: "dom (sensitivity_map cfg) = {''low'', ''medium'', ''high''}"
  by (auto simp: sensitivity_map_def split: if_splits)

lemma get_contamination_unknown:
  "sensitivity \<notin> {''low'', ''medium'', ''high''} \<Longrightarrow>
     get_contamination_by_sensitivity cfg sensitivity = default_contamination cfg"
proof -
  assume "sensitivity \<notin> {''low'', ''medium'', ''high''}"
  then have "sensitivity \<notin> dom (sensitivity_map cfg)" unfolding dom_sensitivity_map .
  then have "sensitivity_map cfg sensitivity = None" by blast
  then show ?thesis by (simp add: get_contamination_by_sensitivity_def)
qed

lemma detect_contamination_only:
  "get_contamination_by_sensitivity cfg s1 = get_contamination_by_sensitivity cfg s2 \<Longrightarrow>
     detect cfg ext clock ts vals meth s1 = detect cfg ext clock ts vals meth s2"
  by (simp add: detect_def)

lemma detect_zscore_example:
  "anomalies (detect settings all_normal_external (0, 1) [0, 60] [1, 3] ''z-score'' ''medium'')
     = [False, False]
   \<and> scores (detect settings all_normal_external (0, 1) [0, 60] [1, 3] ''z-score'' ''medium'')
     = [Num (fl (1 / 6)), Num (fl (1 / 6))]
   \<and> anomaly_count (detect settings all_normal_external (0, 1) [0, 60] [1, 3] ''z-score''
        ''medium'') = 0"
  using ZScoreDetector_example
  by (simp add: detect_nonempty resolve_method_def methods_def detect_zscore_def settings_def
        Let_def np_sum_bool_def)

lemma detect_default_example:
  "anomalies (detect settings all_normal_external (0, 1) [0, 60] [5, 7] ''isolation-forest''
      ''medium'') = [False, False]
   \<and> scores (detect settings all_normal_external (0, 1) [0, 60] [5, 7] ''isolation-forest''
      ''medium'') = [Num (1 / 2), Num (1 / 2)]
   \<and> anomaly_count (detect settings all_normal_external (0, 1) [0, 60] [5, 7]
      ''isolation-forest'' ''medium'') = 0"
  by (simp add: detect_nonempty resolve_method_def methods_def detect_isolation_forest_example
        Let_def np_sum_bool_def)

subsection \<open>The outcome of detect (C4)\<close>

text \<open>
  C4. For timestamps and values of equal length, the empty input included, \<open>detect\<close>
  returns as many flags and scores (and so per-point results) as there are values,
  \<open>anomaly_count\<close> is the number of true flags, and the empty input gives no point and
  no anomaly. The models of scikit-learn and dtaianomaly are assumed to return one label
  and one score for every row they are given.
\<close>

theorem detect_outcome_consistent:
  assumes "length ts = length vals"
    and "library_contract ext"
  shows "length (anomalies (detect cfg ext clock ts vals meth sens)) = length vals
       \<and> length (scores (detect cfg ext clock ts vals meth sens)) = length vals
       \<and> length (zip ts (zip vals (zip (anomalies (detect cfg ext clock ts vals meth sens))
                                        (scores (detect cfg ext clock ts vals meth sens)))))
           = length vals
       \<and> anomaly_count (detect cfg ext clock ts vals meth sens)
           = int (length (filter (\<lambda>b. b) (anomalies (detect cfg ext clock ts vals meth sens))))
       \<and> (vals = [] \<longrightarrow>
             anomalies (detect cfg ext clock ts vals meth sens) = []
           \<and> scores (detect cfg ext clock ts vals meth sens) = []
           \<and> anomaly_count (detect cfg ext clock ts vals meth sens) = 0)"
proof -
  have l: "length (anomalies (detect cfg ext clock ts vals meth sens)) = length vals
       \<and> length (scores (detect cfg ext clock ts vals meth sens)) = length vals"
    using detect_lengths [OF assms(2)] .
  have z: "length (zip ts (zip vals (zip (anomalies (detect cfg ext clock ts vals meth sens))
                                        (scores (detect cfg ext clock ts vals meth sens)))))
           = length vals"
    using l assms(1) by simp
  have e: "anomalies (detect cfg ext clock ts vals meth sens) = []
           \<and> scores (detect cfg ext clock ts vals meth sens) = []
           \<and> anomaly_count (detect cfg ext clock ts vals meth sens) = 0" if "vals = []"
    using that by (simp add: detect_empty empty_result_def)
  show ?thesis using l z e detect_anomaly_count [of cfg ext clock ts vals meth sens] by blast
qed

theorem detect_outcome_consistent_witness:
  "length [0, 60 :: real] = length [5, 7 :: real]
   \<and> library_contract all_normal_external
   \<and> anomalies (detect settings all_normal_external (0, 1) [0, 60] [5, 7] ''isolation-forest''
        ''medium'') = [False, False]
   \<and> scores (detect settings all_normal_external (0, 1) [0, 60] [5, 7] ''isolation-forest''
        ''medium'') = [Num (1 / 2), Num (1 / 2)]
   \<and> length (anomalies (detect settings all_normal_external (0, 1) [0, 60] [5, 7]
        ''isolation-forest'' ''medium'')) = length [5, 7 :: real]
   \<and> anomaly_count (detect settings all_normal_external (0, 1) [0, 60] [5, 7]
        ''isolation-forest'' ''medium'') = 0
   \<and> anomalies (detect settings all_normal_external (0, 1) [0, 60] [1, 3] ''z-score'' ''medium'')
       = [False, False]
   \<and> anomalies (detect settings all_normal_external (0, 1) [] [] ''z-score'' ''medium'') = []
   \<and> anomaly_count (detect settings all_normal_external (0, 1) [] [] ''z-score'' ''medium'') = 0"
proof -
  have h: "length [0, 60 :: real] = length [5, 7 :: real]" by simp
  have e: "length ([] :: real list) = length ([] :: real list)" by simp
  show ?thesis
    using detect_outcome_consistent [OF h all_normal_external_contract,
            of settings "(0, 1)" "''isolation-forest''" "''medium''"]
      detect_outcome_consistent [OF e all_normal_external_contract,
            of settings "(0, 1)" "''z-score''" "''medium''"]
      all_normal_external_contract
    by (simp add: detect_zscore_example detect_default_example)
qed

subsection \<open>A scorer that raises (C5)\<close>

text \<open>
  C5. When the selected scorer raises an exception on the input, \<open>detect\<close> still returns
  an outcome: all flags false, all scores 0, as many of each as there are values.
\<close>

theorem detect_scorer_failure_all_normal:
  assumes "methods cfg ext (resolve_method cfg ext meth) = Some f"
    and "f vals (get_contamination_by_sensitivity cfg sens) = Inl e"
  shows "anomalies (detect cfg ext clock ts vals meth sens) = replicate (length vals) False
       \<and> scores (detect cfg ext clock ts vals meth sens) = replicate (length vals) (Num 0)
       \<and> anomaly_count (detect cfg ext clock ts vals meth sens) = 0
       \<and> length (anomalies (detect cfg ext clock ts vals meth sens)) = length vals
       \<and> length (scores (detect cfg ext clock ts vals meth sens)) = length vals"
proof (cases "vals = []")
  case True
  then show ?thesis by (simp add: detect_empty empty_result_def)
next
  case False
  then show ?thesis using assms
    by (simp add: detect_nonempty Let_def np_sum_bool_zeros) (simp add: np_zeros_def np_zeros_bool_def)
qed

theorem detect_scorer_failure_all_normal_witness:
  "methods settings all_normal_external (resolve_method settings all_normal_external ''prophet'')
     = Some (detect_prophet all_normal_external)
   \<and> detect_prophet all_normal_external [1, 2, 50]
        (get_contamination_by_sensitivity settings ''medium'') = Inl AttributeError
   \<and> anomalies (detect settings all_normal_external (0, 1) [0, 60, 120] [1, 2, 50] ''prophet'' ''medium'')
       = [False, False, False]
   \<and> scores (detect settings all_normal_external (0, 1) [0, 60, 120] [1, 2, 50] ''prophet'' ''medium'')
       = [Num 0, Num 0, Num 0]
   \<and> anomaly_count (detect settings all_normal_external (0, 1) [0, 60, 120] [1, 2, 50] ''prophet'' ''medium'')
       = 0"
proof -
  have m: "methods settings all_normal_external (resolve_method settings all_normal_external ''prophet'')
     = Some (detect_prophet all_normal_external)"
    by (simp add: resolve_method_def methods_def)
  have f: "detect_prophet all_normal_external [1, 2, 50]
        (get_contamination_by_sensitivity settings ''medium'') = Inl AttributeError"
    by (simp add: detect_prophet_def ProphetDetector_fit_predict_def)
  show ?thesis
    using detect_scorer_failure_all_normal [OF m f, of "(0, 1)" "[0, 60, 120]"] m f
    by (simp add: numeral_3_eq_3)
qed

subsection \<open>An unknown method name (C6)\<close>

text \<open>
  C6. For a non-empty input and a method string that is not a key of the method table,
  \<open>detect\<close> runs the isolation-forest scorer and reports \<open>isolation-forest\<close> as the
  method of the outcome.
\<close>

theorem detect_unknown_method_default:
  assumes "vals \<noteq> []"
    and "meth \<notin> {''z-score'', ''moving-average'', ''isolation-forest'', ''lof'', ''prophet'',
                  ''dtai-auto''}"
  shows "method_used (detect cfg ext clock ts vals meth sens) = ''isolation-forest''
       \<and> detect cfg ext clock ts vals meth sens
           = detect cfg ext clock ts vals ''isolation-forest'' sens
       \<and> (anomalies (detect cfg ext clock ts vals meth sens),
           scores (detect cfg ext clock ts vals meth sens))
           = (case detect_isolation_forest ext vals
                     (get_contamination_by_sensitivity cfg sens) of
                Inr r \<Rightarrow> r
              | Inl e \<Rightarrow> (replicate (length vals) False, replicate (length vals) (Num 0)))"
proof -
  have "meth \<notin> dom (methods cfg ext)" using assms(2) unfolding dom_methods .
  then have r: "resolve_method cfg ext meth = ''isolation-forest''"
    by (simp add: resolve_method_def)
  have r': "resolve_method cfg ext ''isolation-forest'' = ''isolation-forest''"
    by (simp add: resolve_method_def)
  have m: "methods cfg ext ''isolation-forest'' = Some (detect_isolation_forest ext)"
    by (simp add: methods_def)
  show ?thesis using assms(1) r r' m
    by (simp add: detect_nonempty Let_def np_zeros_def np_zeros_bool_def split: sum.splits)
qed

theorem detect_unknown_method_default_witness:
  "[5, 7 :: real] \<noteq> []
   \<and> ''arima'' \<notin> {''z-score'', ''moving-average'', ''isolation-forest'', ''lof'', ''prophet'',
                    ''dtai-auto''}
   \<and> method_used (detect settings all_normal_external (0, 1) [0, 60] [5, 7] ''arima'' ''medium'')
       = ''isolation-forest''
   \<and> anomalies (detect settings all_normal_external (0, 1) [0, 60] [5, 7] ''arima'' ''medium'')
       = [False, False]"
proof -
  have a: "[5, 7 :: real] \<noteq> []" by simp
  have b: "''arima'' \<notin> {''z-score'', ''moving-average'', ''isolation-forest'', ''lof'',
                         ''prophet'', ''dtai-auto''}" by simp
  show ?thesis
    using detect_unknown_method_default
            [OF a b, of settings all_normal_external "(0, 1)" "[0, 60]" "''medium''"] b
    by (auto simp: detect_isolation_forest_example)
qed

subsection \<open>Unknown sensitivity levels (C10)\<close>

text \<open>
  C10. For a sensitivity string other than \<open>low\<close>, \<open>medium\<close> and \<open>high\<close> the
  resolver returns the configured default contamination; with the declared defaults this is
  0.01, the value of \<open>medium\<close>, so the contamination and the whole result of \<open>detect\<close>
  are those of sensitivity \<open>medium\<close>.
\<close>

theorem unknown_sensitivity_is_medium:
  "(sensitivity \<notin> {''low'', ''medium'', ''high''} \<longrightarrow>
      get_contamination_by_sensitivity cfg sensitivity = default_contamination cfg)
   \<and> default_contamination settings = 1 / 100
   \<and> get_contamination_by_sensitivity settings ''medium'' = default_contamination settings
   \<and> (sensitivity \<notin> {''low'', ''medium'', ''high''} \<longrightarrow>
        get_contamination_by_sensitivity settings sensitivity
          = get_contamination_by_sensitivity settings ''medium''
        \<and> detect settings ext clock ts vals meth sensitivity
          = detect settings ext clock ts vals meth ''medium'')"
proof -
  have a: "default_contamination settings = 1 / 100" by (simp add: settings_def)
  have b: "get_contamination_by_sensitivity settings ''medium'' = default_contamination settings"
    by (simp add: get_contamination_by_sensitivity_def sensitivity_map_def settings_def)
  have c: "get_contamination_by_sensitivity settings sensitivity
          = get_contamination_by_sensitivity settings ''medium''"
    if "sensitivity \<notin> {''low'', ''medium'', ''high''}"
    using get_contamination_unknown [OF that, of settings] b by simp
  show ?thesis
    using a b c get_contamination_unknown [of sensitivity cfg]
      detect_contamination_only [of settings sensitivity "''medium''"]
    by blast
qed

theorem unknown_sensitivity_is_medium_witness:
  "''extreme'' \<notin> {''low'', ''medium'', ''high''}
   \<and> get_contamination_by_sensitivity settings ''extreme'' = 1 / 100
   \<and> get_contamination_by_sensitivity settings ''medium'' = 1 / 100
   \<and> detect settings all_normal_external (0, 1) [0, 60] [5, 7] ''z-score'' ''extreme''
       = detect settings all_normal_external (0, 1) [0, 60] [5, 7] ''z-score'' ''medium''"
  using unknown_sensitivity_is_medium
          [of "''extreme''" settings all_normal_external "(0, 1)" "[0, 60]" "[5, 7]" "''z-score''"]
  by simp

subsection \<open>Events\<close>

lemma fl_100: "fl 100 = 100"
  using fl_eval [of 6 100] by (simp add: pow2_def round_half_even_def)

lemma fl_200: "fl 200 = 200"
  using fl_eval [of 7 200] by (simp add: pow2_def round_half_even_def)

lemma fl_400: "fl 400 = 400"
  using fl_eval [of 8 400] by (simp add: pow2_def round_half_even_def)

lemma with_priority_Inr:
  assumes "with_priority e = Inr e'"
  shows "start_time e' = start_time e" "end_time e' = end_time e" "metric e' = metric e"
    "max_score e' = max_score e" "anomaly_points e' = anomaly_points e"
    "peak_value e' = peak_value e" "event_timestamps e' = event_timestamps e"
    "event_values e' = event_values e"
    "duration_seconds e' = total_seconds (end_time e - start_time e)"
    "calculate_priority (max_score e) (anomaly_points e)
        (total_seconds (end_time e - start_time e)) = Inr (priority e')"
  using assms
  by (auto simp: with_priority_def Let_def raw_event.defs event.defs split: sum.splits)

text \<open>The priority of an event with a point count below the overflow bound.\<close>

lemma calculate_priority_returns:
  assumes "0 \<le> pc" "pc < 2 ^ 1024"
  shows "\<exists>p. calculate_priority ms pc d = Inr p"
proof -
  have "\<exists>q. py_int_truediv pc 10 = Inr q"
    using py_int_truediv_10 [OF assms(1)] assms(2) by (cases "py_int_truediv pc 10") auto
  then show ?thesis by (auto simp: calculate_priority_def Let_def)
qed

lemma with_priority_returns:
  assumes "0 \<le> anomaly_points e" "anomaly_points e < 2 ^ 1024"
  shows "\<exists>e'. with_priority e = Inr e'"
proof -
  obtain p where "calculate_priority (max_score e) (anomaly_points e)
      (total_seconds (end_time e - start_time e)) = Inr p"
    using calculate_priority_returns [OF assms] by blast
  then show ?thesis by (simp add: with_priority_def Let_def)
qed

lemma extend_event_peak_value: "peak_value (extend_event e ts score val) = peak_value e"
  by (simp add: extend_event_def Let_def)

lemmas group_defs =
  group_anomalies_def chronological_events_def closed_events_def group_scan_def close_last_def
  new_event_def extend_event_def total_seconds_def Let_def

lemma stale_example_closed:
  "closed_events settings [0, 100] [True, True] [5 / 10, fl (9 / 10)] [10, 20] ''cpu''
     = [\<lparr> start_time = 0, end_time = 100, metric = ''cpu'', max_score = fl (9 / 10),
          anomaly_points = 2, peak_value = 10, event_timestamps = [0, 100],
          event_values = [10, 20] \<rparr>]"
proof -
  have "(5::real) / 10 \<le> fl (9 / 10)" using fl_mono [of "1 / 2" "9 / 10"] by (simp add: fl_half)
  then show ?thesis by (simp add: group_defs settings_def fl_100 max_def)
qed

text \<open>
  C1 (fails on the code). Claim: when a point joins the open event, \<open>peak_value\<close> becomes
  the point's value exactly when its score strictly exceeds the event's maximum score
  before the update, so \<open>peak_value\<close> is the value of the point with the maximum score.
  The branch compares the score with \<open>max_score\<close> after \<open>max_score\<close> has been
  overwritten with the maximum of both, so the comparison never holds. At two anomalous
  points 100 seconds apart with scores 0.5 and 0.9 and values 10 and 20 the code returns
  one event with maximum score 0.9 (the second point's) whose peak value is 10 (the first
  point's), not 20.
\<close>

theorem group_anomalies_peak_value_stale:
  "map_sum id (map max_score)
      (group_anomalies settings [0, 100] [True, True] [5 / 10, fl (9 / 10)] [10, 20] ''cpu'')
     = Inr [fl (9 / 10)]
   \<and> map_sum id (map event_values)
         (group_anomalies settings [0, 100] [True, True] [5 / 10, fl (9 / 10)] [10, 20] ''cpu'')
     = Inr [[10, 20]]
   \<and> map_sum id (map peak_value)
         (group_anomalies settings [0, 100] [True, True] [5 / 10, fl (9 / 10)] [10, 20] ''cpu'')
     = Inr [10]"
proof -
  define e where "e = \<lparr> start_time = 0, end_time = 100, metric = ''cpu'',
      max_score = fl (9 / 10), anomaly_points = 2, peak_value = 10,
      event_timestamps = [0, 100], event_values = [10, 20 :: real] \<rparr>"
  obtain e' where e': "with_priority e = Inr e'"
    using with_priority_returns [of e] by (auto simp: e_def)
  have "group_anomalies settings [0, 100] [True, True] [5 / 10, fl (9 / 10)] [10, 20] ''cpu''
      = Inr [e']"
    using e' stale_example_closed
    by (simp add: group_anomalies_def chronological_events_def e_def)
  then show ?thesis using with_priority_Inr [OF e'] by (simp add: e_def)
qed

subsection \<open>The moving-average detector\<close>

lemma length_assign_prefix_zero: "length (assign_prefix_zero w zs) = length zs"
  by (simp add: assign_prefix_zero_def)

lemma nth_assign_prefix_zero:
  "i < w \<Longrightarrow> i < length zs \<Longrightarrow> assign_prefix_zero w zs ! i = Num 0"
  by (simp add: assign_prefix_zero_def nth_append)

lemma score_of_zero:
  assumes "0 < t"
  shows "\<not> np_gt (Num 0) t \<and> np_clip (np_div (Num 0) (np_double t)) 0 1 = Num 0"
proof (cases "2 ^ 1024 \<le> t * 2")
  case True
  then show ?thesis using assms by (simp add: np_double_def)
next
  case False
  have "\<not> t * 2 \<le> - (2 ^ 1024)" using assms by (simp add: order.strict_trans2 [of _ 0])
  then show ?thesis using assms False by (simp add: np_double_def np_round_def fl_0)
qed

text \<open>
  C8. The moving-average detector never flags one of the first \<open>window_size\<close> points and
  gives each of them the score 0, whatever their values; on an input shorter than
  \<open>window_size\<close> it returns no flag and only scores 0. The threshold is positive (the
  default is 3.0); the detector raises only for a negative window size.
\<close>

theorem moving_average_cold_start:
  assumes "0 < ma_threshold d"
  shows "case MovingAverageDetector_predict d X of
           Inl e \<Rightarrow> window_size d < 0
         | Inr (a, s) \<Rightarrow>
             length a = length X \<and> length s = length X
             \<and> (\<forall>i. i < length X \<and> int i < window_size d \<longrightarrow> \<not> a ! i \<and> s ! i = Num 0)
             \<and> (int (length X) < window_size d \<longrightarrow>
                  a = replicate (length X) False \<and> s = replicate (length X) (Num 0))"
proof (cases "int (length X) < window_size d")
  case True
  then show ?thesis
    by (simp add: MovingAverageDetector_predict_def np_zeros_def np_zeros_bool_def)
next
  case False
  show ?thesis
  proof (cases "window_size d < 0")
    case True
    then show ?thesis using False by (simp add: MovingAverageDetector_predict_def)
  next
    case nonneg: False
    define w where "w = nat (window_size d)"
    define zs where "zs = assign_prefix_zero w
        (map (\<lambda>(x, m, s). np_abs (np_div (np_sub (Num x) m) s))
             (zip X (zip (rolling_mean w X) (replace_zero (rolling_std w X)))))"
    have len: "length zs = length X"
      by (simp add: zs_def length_assign_prefix_zero rolling_mean_def rolling_std_def
            replace_zero_def)
    have res: "MovingAverageDetector_predict d X =
        Inr (map (\<lambda>z. np_gt z (ma_threshold d)) zs,
             map (\<lambda>z. np_clip (np_div z (np_double (ma_threshold d))) 0 1) zs)"
      using False nonneg by (simp add: MovingAverageDetector_predict_def Let_def zs_def w_def)
    have pre: "\<not> np_gt (zs ! i) (ma_threshold d)
             \<and> np_clip (np_div (zs ! i) (np_double (ma_threshold d))) 0 1 = Num 0"
      if "i < length X" "int i < window_size d" for i
    proof -
      have "i < w" using that(2) nonneg by (simp add: w_def)
      then have "zs ! i = Num 0"
        using that(1) len unfolding zs_def
        by (intro nth_assign_prefix_zero) (simp_all add: zs_def length_assign_prefix_zero)
      then show ?thesis using score_of_zero [OF assms] by simp
    qed
    show ?thesis using False len pre by (simp add: res)
  qed
qed

theorem moving_average_cold_start_witness:
  "0 < ma_threshold (MovingAverageDetector_init 3 3)
   \<and> MovingAverageDetector_predict (MovingAverageDetector_init 3 3) [1, 100, 1]
       = Inr ([False, False, False], [Num 0, Num 0, Num 0])
   \<and> MovingAverageDetector_predict (MovingAverageDetector_init 10 3) [1, 100, 1]
       = Inr ([False, False, False], [Num 0, Num 0, Num 0])"
proof -
  have t: "0 < ma_threshold (MovingAverageDetector_init 3 3)"
    by (simp add: MovingAverageDetector_init_def)
  have t': "0 < ma_threshold (MovingAverageDetector_init 10 3)"
    by (simp add: MovingAverageDetector_init_def)
  obtain a s where r: "MovingAverageDetector_predict (MovingAverageDetector_init 3 3) [1, 100, 1]
       = Inr (a, s)"
    by (simp add: MovingAverageDetector_predict_def MovingAverageDetector_init_def Let_def)
  have "length a = 3 \<and> length s = 3 \<and>
        (\<forall>i. i < 3 \<and> int i < 3 \<longrightarrow> \<not> a ! i \<and> s ! i = Num 0)"
    using moving_average_cold_start [OF t, of "[1, 100, 1]"] r
    by (simp add: MovingAverageDetector_init_def)
  then have "a = [False, False, False] \<and> s = [Num 0, Num 0, Num 0]"
    by (auto simp: list_eq_iff_nth_eq less_Suc_eq numeral_3_eq_3)
  moreover have "MovingAverageDetector_predict (MovingAverageDetector_init 10 3) [1, 100, 1]
       = Inr ([False, False, False], [Num 0, Num 0, Num 0])"
    using moving_average_cold_start [OF t', of "[1, 100, 1]"]
    by (auto simp: MovingAverageDetector_init_def numeral_3_eq_3 split: sum.splits)
  ultimately show ?thesis using t r by simp
qed

end
